theory Spec2Isabelle
  imports Main "HOL-Library.Word"
begin

unbundle bit_operations_syntax

section \<open>The predefined header of the C front end (lib/tcc/vendor/tccdefs\_.h)\<close>

text \<open>
  The source file is a sequence of C string literals, one per line of the predefined
  header, selected by conditionals of the compiler's own build (the lines starting at
  column 1: \<^verbatim>\<open>#if PTR_SIZE == 4\<close>, \<^verbatim>\<open>#if defined TARGETOS_Linux\<close>, ...).
  Every literal ends in exactly one newline, so the emitted text is modelled as the list
  of its lines, each without the final newline; \<open>emitted_text\<close> puts the newlines back.
  The conditionals \<^emph>\<open>inside\<close> the literals (\<^verbatim>\<open>#ifdef __BOUNDS_CHECKING_ON\<close>, ...) are
  part of the emitted text and are decided later, when the header is preprocessed.
\<close>

subsection \<open>Target configuration\<close>

text \<open>
  The build-time macros the file tests. \<open>PTR_SIZE\<close> and \<open>LONG_SIZE\<close> are numbers, every
  other field says whether the macro of that name is defined.
\<close>

record config =
  PTR_SIZE :: nat
  LONG_SIZE :: nat
  TARGETOS_Linux :: bool
  TARGETOS_OpenBSD :: bool
  TARGETOS_FreeBSD :: bool
  TARGETOS_FreeBSD_kernel :: bool
  TARGETOS_NetBSD :: bool
  TARGETOS_ANDROID :: bool
  TCC_TARGET_PE :: bool
  TCC_TARGET_MACHO :: bool
  TCC_TARGET_I386 :: bool
  TCC_TARGET_X86_64 :: bool
  TCC_TARGET_ARM :: bool
  TCC_TARGET_ARM64 :: bool
  TCC_TARGET_RISCV64 :: bool
  TCC_ARM_EABI :: bool

subsection \<open>The emitted lines, fragment by fragment\<close>

text \<open>Lines 19 to 46: size, pointer-difference and 64-bit integer types.\<close>

definition size_types :: "config \<Rightarrow> string list" where
  "size_types c =
    (if PTR_SIZE c = 4 then
       (if TARGETOS_OpenBSD c then
          [''#define __SIZE_TYPE__ unsigned long'',
           ''#define __PTRDIFF_TYPE__ long'']
        else
          [''#define __SIZE_TYPE__ unsigned int'',
           ''#define __PTRDIFF_TYPE__ int''])
       @ [''#define __ILP32__ 1'',
          ''#define __INT64_TYPE__ long long'']
     else if LONG_SIZE c = 4 then
       [''#define __SIZE_TYPE__ unsigned long long'',
        ''#define __PTRDIFF_TYPE__ long long'',
        ''#define __LLP64__ 1'',
        ''#define __INT64_TYPE__ long long'']
     else
       [''#define __SIZE_TYPE__ unsigned long'',
        ''#define __PTRDIFF_TYPE__ long'',
        ''#define __LP64__ 1'']
       @ (if TARGETOS_Linux c then
            [''#define __INT64_TYPE__ long'']
          else
            [''#define __INT64_TYPE__ long long'']))"

text \<open>Lines 47 to 59: integer limits and byte order.\<close>

definition int_limits :: "config \<Rightarrow> string list" where
  "int_limits c =
    [''#define __SIZEOF_INT__ 4'',
     ''#define __INT_MAX__ 0x7fffffff'']
    @ (if LONG_SIZE c = 4 then
         [''#define __LONG_MAX__ 0x7fffffffL'']
       else
         [''#define __LONG_MAX__ 0x7fffffffffffffffL''])
    @ [''#define __SIZEOF_LONG_LONG__ 8'',
       ''#define __LONG_LONG_MAX__ 0x7fffffffffffffffLL'',
       ''#define __CHAR_BIT__ 8'',
       ''#define __ORDER_LITTLE_ENDIAN__ 1234'',
       ''#define __ORDER_BIG_ENDIAN__ 4321'',
       ''#define __BYTE_ORDER__ __ORDER_LITTLE_ENDIAN__'']"

text \<open>Lines 60 to 69: wide character types.\<close>

definition wchar_types :: "config \<Rightarrow> string list" where
  "wchar_types c =
    (if TCC_TARGET_PE c then
       [''#define __WCHAR_TYPE__ unsigned short'',
        ''#define __WINT_TYPE__ unsigned short'']
     else if TARGETOS_Linux c then
       [''#define __WCHAR_TYPE__ int'',
        ''#define __WINT_TYPE__ unsigned int'']
     else
       [''#define __WCHAR_TYPE__ int'',
        ''#define __WINT_TYPE__ int''])"

text \<open>Lines 71 to 79: the block for strict C11.\<close>

definition stdc_macros :: "config \<Rightarrow> string list" where
  "stdc_macros c =
    [''#if __STDC_VERSION__==201112L'',
     ''#define __STDC_NO_ATOMICS__ 1'',
     ''#define __STDC_NO_COMPLEX__ 1'',
     ''#define __STDC_NO_THREADS__ 1'']
    @ (if \<not> TCC_TARGET_PE c then
         [''#define __STDC_UTF_16__ 1'',
          ''#define __STDC_UTF_32__ 1'']
       else [])
    @ [''#endif'']"

text \<open>Lines 81 to 138: what each operating system's headers expect to find.\<close>

definition os_identity :: "config \<Rightarrow> string list" where
  "os_identity c =
    (if TCC_TARGET_PE c then
       [''#define __declspec(x) __attribute__((x))'',
        ''#define __cdecl'']
     else if TARGETOS_FreeBSD c then
       [''#define __GNUC__ 9'',
        ''#define __GNUC_MINOR__ 3'',
        ''#define __GNUC_PATCHLEVEL__ 0'',
        ''#define __GNUC_STDC_INLINE__ 1'',
        ''#define __NO_TLS 1'',
        ''#define __RUNETYPE_INTERNAL 1'']
       @ (if PTR_SIZE c = 8 then
            [''#define __int128_t struct{unsigned char _dummy[16]__attribute((aligned(16)));}'',
             ''#define __SIZEOF_SIZE_T__ 8'',
             ''#define __SIZEOF_PTRDIFF_T__ 8'']
          else
            [''#define __SIZEOF_SIZE_T__ 4'',
             ''#define __SIZEOF_PTRDIFF_T__ 4''])
     else if TARGETOS_FreeBSD_kernel c then
       []
     else if TARGETOS_NetBSD c then
       [''#define __GNUC__ 4'',
        ''#define __GNUC_MINOR__ 1'',
        ''#define __GNUC_PATCHLEVEL__ 0'',
        ''#define _Pragma(x)'',
        ''#define __ELF__ 1'']
       @ (if TCC_TARGET_ARM64 c then
            [''#define _LOCORE'']
          else [])
     else if TARGETOS_OpenBSD c then
       [''#define __GNUC__ 4'',
        ''#define _ANSI_LIBRARY 1'']
     else if TCC_TARGET_MACHO c then
       [''#define __GNUC__ 4'',
        ''#define __APPLE_CC__ 1'',
        ''#define __LITTLE_ENDIAN__ 1'',
        ''#define _DONT_USE_CTYPE_INLINE_ 1'',
        ''#define __FINITE_MATH_ONLY__ 1'',
        ''#define _FORTIFY_SOURCE 0'']
     else if TARGETOS_ANDROID c then
       [''#define BIONIC_IOCTL_NO_SIGNEDNESS_OVERLOAD'',
        ''#define __PRETTY_FUNCTION__ __FUNCTION__'',
        ''#define __has_builtin(x) 0'',
        ''#define _Nonnull'',
        ''#define _Nullable'']
     else
       [])"

text \<open>Lines 139 to 144: integer types derived from the pointer-difference type.\<close>

definition intptr_types :: "config \<Rightarrow> string list" where
  "intptr_types c =
    (if \<not> TARGETOS_NetBSD c then
       [''#define __UINTPTR_TYPE__ unsigned __PTRDIFF_TYPE__'',
        ''#define __INTPTR_TYPE__ __PTRDIFF_TYPE__'']
     else [])
    @ [''#define __INT32_TYPE__ int'']"

text \<open>Lines 146 to 150: the redirection macros of glibc.\<close>

definition glibc_redirect :: "config \<Rightarrow> string list" where
  "glibc_redirect c =
    (if \<not> TCC_TARGET_PE c then
       [''#define __REDIRECT(name,proto,alias) name proto __asm__(#alias)'',
        ''#define __REDIRECT_NTH(name,proto,alias) name proto __asm__(#alias)__THROW'']
     else [])"

text \<open>Line 153: everything from here to the last line is skipped with -E.\<close>

definition tcc_pp_begin :: "string list" where
  "tcc_pp_begin = [''#ifndef __TCC_PP__'']"

text \<open>Lines 155 to 171: the simple builtins.\<close>

definition builtin_macros :: "config \<Rightarrow> string list" where
  "builtin_macros c =
    [''#define __builtin_offsetof(type,field) ((__SIZE_TYPE__)&((type*)0)->field)'',
     ''#define __builtin_extract_return_addr(x) x'']
    @ (if \<not> TARGETOS_Linux c \<and> \<not> TCC_TARGET_PE c then
         [''#define __builtin_huge_val() 1e500'',
          ''#define __builtin_huge_valf() 1e50f'',
          ''#define __builtin_huge_vall() 1e5000L'']
         @ (if TCC_TARGET_MACHO c then
              [''#define __builtin_nanf(ignored_string) (0.0F/0.0F)'',
               ''#define __builtin_flt_rounds() 1'',
               ''#define __builtin_bzero(p,ignored_size) bzero(p,sizeof(*(p)))'']
            else
              [''#define __builtin_nanf(ignored_string) (0.0F/0.0F)''])
       else [])"

text \<open>Lines 173 to 232: the variadic-argument type and its access macros.\<close>

definition va_list_defs :: "config \<Rightarrow> string list" where
  "va_list_defs c =
    (if TCC_TARGET_X86_64 c then
       (if \<not> TCC_TARGET_PE c then
          [''typedef struct{'',
           ''unsigned gp_offset,fp_offset;'',
           ''union{'',
           ''unsigned overflow_offset;'',
           ''char*overflow_arg_area;'',
           ''};'',
           ''char*reg_save_area;'',
           ''}__builtin_va_list[1];'',
           ''void*__va_arg(__builtin_va_list ap,int arg_type,int size,int align);'',
           ''#define __builtin_va_start(ap,last) (*(ap)=*(__builtin_va_list)((char*)__builtin_frame_address(0)-24))'',
           ''#define __builtin_va_arg(ap,t) (*(t*)(__va_arg(ap,__builtin_va_arg_types(t),sizeof(t),__alignof__(t))))'',
           ''#define __builtin_va_copy(dest,src) (*(dest)=*(src))'']
        else
          [''typedef char*__builtin_va_list;'',
           ''#define __builtin_va_arg(ap,t) ((sizeof(t)>8||(sizeof(t)&(sizeof(t)-1)))?**(t**)((ap+=8)-8):*(t*)((ap+=8)-8))''])
     else if TCC_TARGET_ARM c then
       [''typedef char*__builtin_va_list;'',
        ''#define _tcc_alignof(type) ((int)&((struct{char c;type x;}*)0)->x)'',
        ''#define _tcc_align(addr,type) (((unsigned)addr+_tcc_alignof(type)-1)&~(_tcc_alignof(type)-1))'',
        ''#define __builtin_va_start(ap,last) (ap=((char*)&(last))+((sizeof(last)+3)&~3))'',
        ''#define __builtin_va_arg(ap,type) (ap=(void*)((_tcc_align(ap,type)+sizeof(type)+3)&~3),*(type*)(ap-((sizeof(type)+3)&~3)))'']
     else if TCC_TARGET_ARM64 c then
       (if TCC_TARGET_MACHO c then
          [''typedef struct{'',
           ''void*__stack;'',
           ''}__builtin_va_list;'']
        else
          [''typedef struct{'',
           ''void*__stack,*__gr_top,*__vr_top;'',
           ''int __gr_offs,__vr_offs;'',
           ''}__builtin_va_list;''])
     else if TCC_TARGET_RISCV64 c then
       [''typedef char*__builtin_va_list;'',
        ''#define __va_reg_size (__riscv_xlen>>3)'',
        ''#define _tcc_align(addr,type) (((unsigned long)addr+__alignof__(type)-1)&-(__alignof__(type)))'',
        ''#define __builtin_va_arg(ap,type) (*(sizeof(type)>(2*__va_reg_size)?*(type**)((ap+=__va_reg_size)-__va_reg_size):(ap=(va_list)(_tcc_align(ap,type)+(sizeof(type)+__va_reg_size-1)&-__va_reg_size),(type*)(ap-((sizeof(type)+__va_reg_size-1)&-__va_reg_size)))))'']
     else
       [''typedef char*__builtin_va_list;'',
        ''#define __builtin_va_start(ap,last) (ap=((char*)&(last))+((sizeof(last)+3)&~3))'',
        ''#define __builtin_va_arg(ap,t) (*(t*)((ap+=(sizeof(t)+3)&~3)-((sizeof(t)+3)&~3)))''])
    @ [''#define __builtin_va_end(ap) (void)(ap)'',
       ''#ifndef __builtin_va_copy'',
       ''#define __builtin_va_copy(dest,src) (dest)=(src)'',
       ''#endif'']"

text \<open>Lines 235 to 254: the helper macros of the builtin and bounds-checking aliases.\<close>

definition alias_macros :: "config \<Rightarrow> string list" where
  \<open>alias_macros c =
    [''#ifdef __leading_underscore'',
     ''#define __RENAME(X) __asm__("_"X)'',
     ''#else'',
     ''#define __RENAME(X) __asm__(X)'',
     ''#endif'',
     ''#ifdef __BOUNDS_CHECKING_ON'',
     ''#define __BUILTINBC(ret,name,params) ret __builtin_##name params __RENAME("__bound_"#name);'',
     ''#define __BOUND(ret,name,params) ret name params __RENAME("__bound_"#name);'',
     ''#else'',
     ''#define __BUILTINBC(ret,name,params) ret __builtin_##name params __RENAME(#name);'',
     ''#define __BOUND(ret,name,params)'',
     ''#endif'']
    @ (if TCC_TARGET_PE c then
         [''#define __BOTH __BOUND'',
          ''#define __BUILTIN(ret,name,params)'']
       else
         [''#define __BOTH(ret,name,params) __BUILTINBC(ret,name,params)__BOUND(ret,name,params)'',
          ''#define __BUILTIN(ret,name,params) ret __builtin_##name params __RENAME(#name);''])\<close>

text \<open>Lines 256 to 298: the table of builtin declarations.\<close>

definition builtin_table :: "config \<Rightarrow> string list" where
  "builtin_table c =
    [''__BOTH(void*,memcpy,(void*,const void*,__SIZE_TYPE__))'',
     ''__BOTH(void*,memmove,(void*,const void*,__SIZE_TYPE__))'',
     ''__BOTH(void*,memset,(void*,int,__SIZE_TYPE__))'',
     ''__BOTH(int,memcmp,(const void*,const void*,__SIZE_TYPE__))'',
     ''__BOTH(__SIZE_TYPE__,strlen,(const char*))'',
     ''__BOTH(char*,strcpy,(char*,const char*))'',
     ''__BOTH(char*,strncpy,(char*,const char*,__SIZE_TYPE__))'',
     ''__BOTH(int,strcmp,(const char*,const char*))'',
     ''__BOTH(int,strncmp,(const char*,const char*,__SIZE_TYPE__))'',
     ''__BOTH(char*,strcat,(char*,const char*))'',
     ''__BOTH(char*,strncat,(char*,const char*,__SIZE_TYPE__))'',
     ''__BOTH(char*,strchr,(const char*,int))'',
     ''__BOTH(char*,strrchr,(const char*,int))'',
     ''__BOTH(char*,strdup,(const char*))'']
    @ (if TCC_ARM_EABI c then
         [''__BOUND(void*,__aeabi_memcpy,(void*,const void*,__SIZE_TYPE__))'',
          ''__BOUND(void*,__aeabi_memmove,(void*,const void*,__SIZE_TYPE__))'',
          ''__BOUND(void*,__aeabi_memmove4,(void*,const void*,__SIZE_TYPE__))'',
          ''__BOUND(void*,__aeabi_memmove8,(void*,const void*,__SIZE_TYPE__))'',
          ''__BOUND(void*,__aeabi_memset,(void*,int,__SIZE_TYPE__))'']
       else [])
    @ (if TARGETOS_Linux c \<or> TCC_TARGET_MACHO c then
         [''#define __MAYBE_REDIR __BUILTIN'']
       else
         [''#define __MAYBE_REDIR __BOTH''])
    @ [''__MAYBE_REDIR(void*,malloc,(__SIZE_TYPE__))'',
       ''__MAYBE_REDIR(void*,realloc,(void*,__SIZE_TYPE__))'',
       ''__MAYBE_REDIR(void*,calloc,(__SIZE_TYPE__,__SIZE_TYPE__))'',
       ''__MAYBE_REDIR(void*,memalign,(__SIZE_TYPE__,__SIZE_TYPE__))'',
       ''__MAYBE_REDIR(void,free,(void*))'']
    @ (if TCC_TARGET_I386 c \<or> TCC_TARGET_X86_64 c then
         [''__BOTH(void*,alloca,(__SIZE_TYPE__))'']
       else
         [''__BUILTIN(void*,alloca,(__SIZE_TYPE__))''])
    @ [''__BUILTIN(void,abort,(void))'',
       ''__BOUND(void,longjmp,())'']
    @ (if \<not> TCC_TARGET_PE c then
         [''__BOUND(void*,mmap,())'',
          ''__BOUND(int,munmap,())'']
       else [])"

text \<open>Lines 299 to 306: the helper macros are removed and the part skipped with -E ends.\<close>

definition helper_cleanup :: "string list" where
  "helper_cleanup =
    [''#undef __BUILTINBC'',
     ''#undef __BUILTIN'',
     ''#undef __BOUND'',
     ''#undef __BOTH'',
     ''#undef __MAYBE_REDIR'',
     ''#undef __RENAME'']"

definition tcc_pp_end :: "string list" where
  "tcc_pp_end = [''#endif'']"

text \<open>The whole file, in the order of the source.\<close>

definition tccdefs :: "config \<Rightarrow> string list" where
  "tccdefs c =
     size_types c @ int_limits c @ wchar_types c @ stdc_macros c @ os_identity c
     @ intptr_types c @ glibc_redirect c
     @ tcc_pp_begin @ builtin_macros c @ va_list_defs c
     @ alias_macros c @ builtin_table c @ helper_cleanup @ tcc_pp_end"

definition emitted_text :: "config \<Rightarrow> string" where
  "emitted_text c = concat (map (\<lambda>l. l @ [CHR 0x0A]) (tccdefs c))"


subsection \<open>Reading a line of the emitted text\<close>

text \<open>
  A line of the emitted text is a preprocessor directive or ordinary text (a declaration,
  a part of a typedef, or the invocation of a helper macro). The forms below are the ones
  the file uses: \<^verbatim>\<open>#define\<close> of an object-like or function-like macro, \<^verbatim>\<open>#undef\<close>,
  \<^verbatim>\<open>#ifdef\<close>, \<^verbatim>\<open>#ifndef\<close>, \<^verbatim>\<open>#if A==B\<close>, \<^verbatim>\<open>#else\<close> and \<^verbatim>\<open>#endif\<close>.
\<close>

definition is_digit :: "char \<Rightarrow> bool" where
  "is_digit c = (let n = of_char c :: nat in 48 \<le> n \<and> n \<le> 57)"

definition is_ident_char :: "char \<Rightarrow> bool" where
  "is_ident_char c = (let n = of_char c :: nat in
     (48 \<le> n \<and> n \<le> 57) \<or> (65 \<le> n \<and> n \<le> 90) \<or> n = 95 \<or> (97 \<le> n \<and> n \<le> 122))"

fun strip_prefix :: "string \<Rightarrow> string \<Rightarrow> string option" where
  "strip_prefix [] l = Some l"
| "strip_prefix (p # ps) [] = None"
| "strip_prefix (p # ps) (x # xs) = (if p = x then strip_prefix ps xs else None)"

text \<open>Splitting an argument list at its commas; commas inside parentheses do not split.\<close>

fun split_args :: "nat \<Rightarrow> string \<Rightarrow> string \<Rightarrow> string list" where
  "split_args d acc [] = [rev acc]"
| "split_args d acc (x # xs) =
    (if x = CHR '','' \<and> d = 0 then rev acc # split_args 0 [] xs
     else if x = CHR ''('' then split_args (Suc d) (x # acc) xs
     else if x = CHR '')'' then split_args (d - 1) (x # acc) xs
     else split_args d (x # acc) xs)"

datatype macro = Object_like string | Function_like "string list" string

text \<open>
  What follows the name in a \<^verbatim>\<open>#define\<close>: a parameter list when the name is directly
  followed by an opening parenthesis, then the replacement text.
\<close>

definition macro_of :: "string \<Rightarrow> macro" where
  "macro_of r =
    (if r \<noteq> [] \<and> hd r = CHR ''('' then
       Function_like
         (let ps = takeWhile (\<lambda>c. c \<noteq> CHR '')'') (tl r) in
          if ps = [] then [] else split_args 0 [] ps)
         (dropWhile (\<lambda>c. c = CHR '' '') (drop 1 (dropWhile (\<lambda>c. c \<noteq> CHR '')'') (tl r))))
     else Object_like (dropWhile (\<lambda>c. c = CHR '' '') r))"

datatype directive =
    Define string macro
  | Undef string
  | Ifdef string
  | Ifndef string
  | If_eq string string
  | Else
  | Endif
  | Text

definition directive_of :: "string \<Rightarrow> directive" where
  "directive_of l =
    (case strip_prefix ''#define '' l of
       Some r \<Rightarrow> Define (takeWhile is_ident_char r) (macro_of (dropWhile is_ident_char r))
     | None \<Rightarrow>
    (case strip_prefix ''#undef '' l of
       Some r \<Rightarrow> Undef r
     | None \<Rightarrow>
    (case strip_prefix ''#ifdef '' l of
       Some r \<Rightarrow> Ifdef r
     | None \<Rightarrow>
    (case strip_prefix ''#ifndef '' l of
       Some r \<Rightarrow> Ifndef r
     | None \<Rightarrow>
    (case strip_prefix ''#if '' l of
       Some r \<Rightarrow> If_eq (takeWhile (\<lambda>c. c \<noteq> CHR ''='') r)
                      (drop 2 (dropWhile (\<lambda>c. c \<noteq> CHR ''='') r))
     | None \<Rightarrow>
       if l = ''#else'' then Else
       else if l = ''#endif'' then Endif
       else Text)))))"

text \<open>All the definitions the text gives to a name, in the order of the text.\<close>

definition definition_in :: "string \<Rightarrow> string \<Rightarrow> macro list" where
  "definition_in n l =
    (case directive_of l of
       Define n' m \<Rightarrow> if n' = n then [m] else []
     | _ \<Rightarrow> [])"

definition definitions_of :: "string \<Rightarrow> string list \<Rightarrow> macro list" where
  "definitions_of n ls = concat (map (definition_in n) ls)"

text \<open>The names a line defines or undefines.\<close>

definition touched_name :: "string \<Rightarrow> string list" where
  "touched_name l =
    (case directive_of l of
       Define n m \<Rightarrow> [n]
     | Undef n \<Rightarrow> [n]
     | _ \<Rightarrow> [])"

definition touched_names :: "string list \<Rightarrow> string list" where
  "touched_names ls = concat (map touched_name ls)"

subsection \<open>Preprocessing the emitted text\<close>

text \<open>
  The preprocessor reads the header with the macros of the target and of the option
  settings already defined (\<^verbatim>\<open>__STDC_VERSION__\<close>, \<^verbatim>\<open>__BOUNDS_CHECKING_ON\<close>,
  \<^verbatim>\<open>__TCC_PP__\<close>, \<^verbatim>\<open>__leading_underscore\<close>, ...). The state is the macro table and
  the stack of the open conditionals, each with the truth of its current branch; a line
  takes effect when every open conditional is in a true branch.
\<close>

type_synonym macros = "string \<Rightarrow> macro option"

record pp_state =
  macros :: macros
  conds :: "bool list"

fun active :: "bool list \<Rightarrow> bool" where
  "active [] = True"
| "active (b # bs) = (b \<and> active bs)"

text \<open>
  The operands of \<^verbatim>\<open>#if A==B\<close>: a decimal literal with an optional integer suffix, or a
  name, which stands for the literal it is defined as and for 0 when it is not an
  object-like macro.
\<close>

definition int_literal :: "string \<Rightarrow> nat option" where
  "int_literal s =
    (let ds = takeWhile is_digit s; suffix = dropWhile is_digit s in
     if ds \<noteq> [] \<and> set suffix \<subseteq> set ''uUlL''
     then Some (foldl (\<lambda>n d. 10 * n + (of_char d - 48)) 0 ds)
     else None)"

definition operand_value :: "macros \<Rightarrow> string \<Rightarrow> nat option" where
  "operand_value m s =
    (if s \<noteq> [] \<and> is_digit (hd s) then int_literal s
     else (case m s of
             Some (Object_like b) \<Rightarrow> int_literal b
           | _ \<Rightarrow> Some 0))"

definition step :: "string \<Rightarrow> pp_state \<Rightarrow> pp_state" where
  "step l s =
    (case directive_of l of
       Define n m \<Rightarrow>
         if active (conds s) then s\<lparr>macros := (macros s)(n \<mapsto> m)\<rparr> else s
     | Undef n \<Rightarrow>
         if active (conds s) then s\<lparr>macros := (macros s)(n := None)\<rparr> else s
     | Ifdef n \<Rightarrow> s\<lparr>conds := (macros s n \<noteq> None) # conds s\<rparr>
     | Ifndef n \<Rightarrow> s\<lparr>conds := (macros s n = None) # conds s\<rparr>
     | If_eq a b \<Rightarrow>
         s\<lparr>conds := (operand_value (macros s) a \<noteq> None
                      \<and> operand_value (macros s) a = operand_value (macros s) b) # conds s\<rparr>
     | Else \<Rightarrow> (case conds s of [] \<Rightarrow> s | b # bs \<Rightarrow> s\<lparr>conds := (\<not> b) # bs\<rparr>)
     | Endif \<Rightarrow> s\<lparr>conds := tl (conds s)\<rparr>
     | Text \<Rightarrow> s)"

definition preprocess :: "string list \<Rightarrow> pp_state \<Rightarrow> pp_state" where
  "preprocess ls s = fold step ls s"

text \<open>The macros a translation unit sees after the header, from the macros set before it.\<close>

definition predefs :: "config \<Rightarrow> macros \<Rightarrow> macros" where
  "predefs c env = macros (preprocess (tccdefs c) \<lparr>macros = env, conds = []\<rparr>)"

text \<open>
  The nesting of the conditionals of a run of lines: the depth after it, from the depth
  before it, or nothing when an \<^verbatim>\<open>#else\<close> or \<^verbatim>\<open>#endif\<close> has no open conditional.
\<close>

fun nesting :: "nat \<Rightarrow> string list \<Rightarrow> nat option" where
  "nesting d [] = Some d"
| "nesting d (l # ls) =
    (case directive_of l of
       Ifdef n \<Rightarrow> nesting (Suc d) ls
     | Ifndef n \<Rightarrow> nesting (Suc d) ls
     | If_eq a b \<Rightarrow> nesting (Suc d) ls
     | Else \<Rightarrow> if d = 0 then None else nesting d ls
     | Endif \<Rightarrow> if d = 0 then None else nesting (d - 1) ls
     | _ \<Rightarrow> nesting d ls)"

subsection \<open>What the table of builtin declarations declares\<close>

text \<open>
  The lines of the table are invocations of the helper macros of lines 235 to 254 and 278
  to 282. Each helper macro is translated into a function that returns the declarations
  its expansion consists of: the declared type and name, the parameter list as written,
  and the symbol that \<^verbatim>\<open>__asm__\<close> binds the declaration to (the adjacent string literals
  of the expansion, concatenated). The conditionals on \<^verbatim>\<open>__TCC_PP__\<close>,
  \<^verbatim>\<open>__leading_underscore\<close> and \<^verbatim>\<open>__BOUNDS_CHECKING_ON\<close> are decided by the option
  settings in force when the header is read.
\<close>

record options =
  TCC_PP :: bool
  leading_underscore :: bool
  BOUNDS_CHECKING_ON :: bool

record builtin_decl =
  decl_type :: string
  decl_name :: string
  decl_params :: string
  decl_symbol :: string

text \<open>Lines 235 to 239.\<close>

definition RENAME :: "options \<Rightarrow> string \<Rightarrow> string" where
  "RENAME opt X = (if leading_underscore opt then ''_'' @ X else X)"

text \<open>Lines 241 to 247.\<close>

definition BUILTINBC :: "options \<Rightarrow> string \<Rightarrow> string \<Rightarrow> string \<Rightarrow> builtin_decl list" where
  "BUILTINBC opt ret name params =
    (if BOUNDS_CHECKING_ON opt then
       [\<lparr>decl_type = ret, decl_name = ''__builtin_'' @ name, decl_params = params,
         decl_symbol = RENAME opt (''__bound_'' @ name)\<rparr>]
     else
       [\<lparr>decl_type = ret, decl_name = ''__builtin_'' @ name, decl_params = params,
         decl_symbol = RENAME opt name\<rparr>])"

definition BOUND :: "options \<Rightarrow> string \<Rightarrow> string \<Rightarrow> string \<Rightarrow> builtin_decl list" where
  "BOUND opt ret name params =
    (if BOUNDS_CHECKING_ON opt then
       [\<lparr>decl_type = ret, decl_name = name, decl_params = params,
         decl_symbol = RENAME opt (''__bound_'' @ name)\<rparr>]
     else [])"

text \<open>Lines 248 to 254.\<close>

definition BOTH :: "config \<Rightarrow> options \<Rightarrow> string \<Rightarrow> string \<Rightarrow> string \<Rightarrow> builtin_decl list" where
  "BOTH c opt ret name params =
    (if TCC_TARGET_PE c then BOUND opt ret name params
     else BUILTINBC opt ret name params @ BOUND opt ret name params)"

definition BUILTIN :: "config \<Rightarrow> options \<Rightarrow> string \<Rightarrow> string \<Rightarrow> string \<Rightarrow> builtin_decl list" where
  "BUILTIN c opt ret name params =
    (if TCC_TARGET_PE c then []
     else
       [\<lparr>decl_type = ret, decl_name = ''__builtin_'' @ name, decl_params = params,
         decl_symbol = RENAME opt name\<rparr>])"

text \<open>Lines 278 to 282.\<close>

definition MAYBE_REDIR :: "config \<Rightarrow> options \<Rightarrow> string \<Rightarrow> string \<Rightarrow> string \<Rightarrow> builtin_decl list" where
  "MAYBE_REDIR c opt =
    (if TARGETOS_Linux c \<or> TCC_TARGET_MACHO c then BUILTIN c opt else BOTH c opt)"

text \<open>A line of the table: the name of a helper macro and its three arguments.\<close>

definition invocation_of :: "string \<Rightarrow> (string \<times> string list) option" where
  "invocation_of l =
    (let name = takeWhile is_ident_char l; rest = dropWhile is_ident_char l in
     if name \<noteq> [] \<and> rest \<noteq> [] \<and> hd rest = CHR ''('' \<and> last rest = CHR '')''
     then Some (name, split_args 0 [] (butlast (tl rest)))
     else None)"

definition expand :: "config \<Rightarrow> options \<Rightarrow> string \<Rightarrow> builtin_decl list" where
  "expand c opt l =
    (case invocation_of l of
       Some (m, [ret, name, params]) \<Rightarrow>
         if m = ''__BOTH'' then BOTH c opt ret name params
         else if m = ''__BOUND'' then BOUND opt ret name params
         else if m = ''__BUILTIN'' then BUILTIN c opt ret name params
         else if m = ''__MAYBE_REDIR'' then MAYBE_REDIR c opt ret name params
         else []
     | _ \<Rightarrow> [])"

text \<open>
  The declarations of lines 256 to 298, in order; none when \<^verbatim>\<open>__TCC_PP__\<close> is defined
  (line 153).
\<close>

definition builtin_declarations :: "config \<Rightarrow> options \<Rightarrow> builtin_decl list" where
  "builtin_declarations c opt =
    (if TCC_PP opt then [] else concat (map (expand c opt) (builtin_table c)))"

text \<open>The declarations for one entry point: its public name and its internal name.\<close>

definition declares :: "string \<Rightarrow> builtin_decl \<Rightarrow> bool" where
  "declares name d = (decl_name d = name \<or> decl_name d = ''__builtin_'' @ name)"

definition declarations_of :: "string \<Rightarrow> config \<Rightarrow> options \<Rightarrow> builtin_decl list" where
  "declarations_of name c opt = filter (declares name) (builtin_declarations c opt)"

text \<open>
  The option settings as the preprocessor sees them, the lines of the header before the
  table (lines 19 to 254), and the macros in force when the first line of the table is
  read.
\<close>

definition options_of :: "macros \<Rightarrow> options" where
  "options_of env =
     \<lparr>TCC_PP = (env ''__TCC_PP__'' \<noteq> None),
      leading_underscore = (env ''__leading_underscore'' \<noteq> None),
      BOUNDS_CHECKING_ON = (env ''__BOUNDS_CHECKING_ON'' \<noteq> None)\<rparr>"

definition before_table :: "config \<Rightarrow> string list" where
  "before_table c =
     size_types c @ int_limits c @ wchar_types c @ stdc_macros c @ os_identity c
     @ intptr_types c @ glibc_redirect c
     @ tcc_pp_begin @ builtin_macros c @ va_list_defs c @ alias_macros c"

definition table_macros :: "config \<Rightarrow> macros \<Rightarrow> macros" where
  "table_macros c env = macros (preprocess (before_table c) \<lparr>macros = env, conds = []\<rparr>)"

subsection \<open>The variadic-argument access of 64-bit Windows\<close>

text \<open>
  Line 194:
  \<^verbatim>\<open>((sizeof(t)>8||(sizeof(t)&(sizeof(t)-1)))?**(t**)((ap+=8)-8):*(t*)((ap+=8)-8))\<close>.
  \<^verbatim>\<open>ap\<close> is a \<^verbatim>\<open>char*\<close> (line 193) and \<^verbatim>\<open>sizeof\<close> has the 64-bit unsigned type of
  that target, so both are 64-bit words. The expression denotes the object of type
  \<^verbatim>\<open>t\<close> at some address and updates \<^verbatim>\<open>ap\<close>; the model returns that address and the
  new \<^verbatim>\<open>ap\<close>, reading pointers from memory with \<open>load\<close>.
\<close>

type_synonym addr = "64 word"

definition win64_by_reference :: "64 word \<Rightarrow> bool" where
  "win64_by_reference sz = (sz > 8 \<or> (sz AND (sz - 1)) \<noteq> 0)"

definition win64_va_arg :: "(addr \<Rightarrow> addr) \<Rightarrow> addr \<Rightarrow> 64 word \<Rightarrow> addr \<times> addr" where
  "win64_va_arg load ap sz =
    (if win64_by_reference sz then (load ((ap + 8) - 8), ap + 8)
     else ((ap + 8) - 8, ap + 8))"

text \<open>
  What the specification calls a power of two, as a test that computes: an exponent that
  gives \<open>n\<close> is smaller than \<open>n\<close>.
\<close>

definition is_power_of_two :: "nat \<Rightarrow> bool" where
  "is_power_of_two n = list_ex (\<lambda>k. n = 2 ^ k) [0..<Suc n]"

subsection \<open>Names defined and names used, line by line\<close>

text \<open>
  The identifiers of a piece of text, in order. A run of letters, digits and underscores
  that starts with a digit is a number, and what stands between double quotes is a string
  literal; neither is an identifier.
\<close>

definition word_of :: "string \<Rightarrow> string list" where
  "word_of acc = (if acc = [] \<or> is_digit (last acc) then [] else [rev acc])"

fun identifiers :: "string \<Rightarrow> bool \<Rightarrow> string \<Rightarrow> string list" where
  "identifiers acc q [] = word_of acc"
| "identifiers acc q (x # xs) =
    (if q then identifiers [] (x \<noteq> CHR 0x22) xs
     else if x = CHR 0x22 then word_of acc @ identifiers [] True xs
     else if is_ident_char x then identifiers (x # acc) False xs
     else word_of acc @ identifiers [] False xs)"

text \<open>
  The name a line of a typedef introduces: the last identifier of a one-line typedef, or
  the identifier after the closing brace of a struct (the only lines of the file that
  start with a closing brace end a typedef'd struct or the union inside it).
\<close>

definition typedef_name :: "string \<Rightarrow> string list" where
  "typedef_name l =
    (if strip_prefix ''typedef '' l \<noteq> None then
       (if last l = CHR '';'' then [last (identifiers [] False l)] else [])
     else if l \<noteq> [] \<and> hd l = CHR ''}'' then take 1 (identifiers [] False l)
     else [])"

text \<open>
  A line defines the macro of its \<^verbatim>\<open>#define\<close> or the name of its typedef. It uses the
  identifiers of the replacement text of its \<^verbatim>\<open>#define\<close>, the parameters of the macro
  apart, or the identifiers of its declaration, the typedef name it introduces apart.
  The other directives define and use nothing.
\<close>

definition line_defines :: "string \<Rightarrow> string list" where
  "line_defines l =
    (case directive_of l of
       Define n m \<Rightarrow> [n]
     | Text \<Rightarrow> typedef_name l
     | _ \<Rightarrow> [])"

definition line_uses :: "string \<Rightarrow> string list" where
  "line_uses l =
    (case directive_of l of
       Define n (Object_like b) \<Rightarrow> identifiers [] False b
     | Define n (Function_like ps b) \<Rightarrow> filter (\<lambda>i. i \<notin> set ps) (identifiers [] False b)
     | Text \<Rightarrow> filter (\<lambda>i. i \<notin> set (typedef_name l)) (identifiers [] False l)
     | _ \<Rightarrow> [])"

definition defined_names :: "string list \<Rightarrow> string list" where
  "defined_names ls = concat (map line_defines ls)"

definition typedef_names :: "string list \<Rightarrow> string list" where
  "typedef_names ls = concat (map typedef_name ls)"

text \<open>
  Scanning top to bottom with the names defined so far: the names a line uses before
  any line has defined them.
\<close>

fun undefined_uses :: "string list \<Rightarrow> string list \<Rightarrow> string list" where
  "undefined_uses seen [] = []"
| "undefined_uses seen (l # ls) =
     filter (\<lambda>i. i \<notin> set seen) (line_uses l) @ undefined_uses (line_defines l @ seen) ls"

text \<open>
  Two lists for the scan, over all targets: the names some line of the header defines, and
  the names some line uses without any line defining them (keywords and intrinsics of
  the compiler, the names of fields, parameters and functions, and macros and types that
  the target, the system headers or the C library provide).
\<close>

definition header_names :: "string list" where
  "header_names =
    [''__SIZE_TYPE__'', ''__PTRDIFF_TYPE__'', ''__ILP32__'', ''__INT64_TYPE__'',
     ''__LLP64__'', ''__LP64__'', ''__SIZEOF_INT__'', ''__INT_MAX__'',
     ''__LONG_MAX__'', ''__SIZEOF_LONG_LONG__'', ''__LONG_LONG_MAX__'',
     ''__CHAR_BIT__'', ''__ORDER_LITTLE_ENDIAN__'', ''__ORDER_BIG_ENDIAN__'',
     ''__BYTE_ORDER__'', ''__WCHAR_TYPE__'', ''__WINT_TYPE__'',
     ''__STDC_NO_ATOMICS__'', ''__STDC_NO_COMPLEX__'', ''__STDC_NO_THREADS__'',
     ''__STDC_UTF_16__'', ''__STDC_UTF_32__'', ''__declspec'', ''__cdecl'',
     ''__GNUC__'', ''__GNUC_MINOR__'', ''__GNUC_PATCHLEVEL__'',
     ''__GNUC_STDC_INLINE__'', ''__NO_TLS'', ''__RUNETYPE_INTERNAL'', ''__int128_t'',
     ''__SIZEOF_SIZE_T__'', ''__SIZEOF_PTRDIFF_T__'', ''_Pragma'', ''__ELF__'',
     ''_LOCORE'', ''_ANSI_LIBRARY'', ''__APPLE_CC__'', ''__LITTLE_ENDIAN__'',
     ''_DONT_USE_CTYPE_INLINE_'', ''__FINITE_MATH_ONLY__'', ''_FORTIFY_SOURCE'',
     ''BIONIC_IOCTL_NO_SIGNEDNESS_OVERLOAD'', ''__PRETTY_FUNCTION__'',
     ''__has_builtin'', ''_Nonnull'', ''_Nullable'', ''__UINTPTR_TYPE__'',
     ''__INTPTR_TYPE__'', ''__INT32_TYPE__'', ''__REDIRECT'', ''__REDIRECT_NTH'',
     ''__builtin_offsetof'', ''__builtin_extract_return_addr'', ''__builtin_huge_val'',
     ''__builtin_huge_valf'', ''__builtin_huge_vall'', ''__builtin_nanf'',
     ''__builtin_flt_rounds'', ''__builtin_bzero'', ''__builtin_va_list'',
     ''__builtin_va_start'', ''__builtin_va_arg'', ''__builtin_va_copy'',
     ''_tcc_alignof'', ''_tcc_align'', ''__va_reg_size'', ''__builtin_va_end'',
     ''__RENAME'', ''__BUILTINBC'', ''__BOUND'', ''__BOTH'', ''__BUILTIN'',
     ''__MAYBE_REDIR'']"

definition external_names :: "string list" where
  "external_names =
    [''unsigned'', ''long'', ''int'', ''short'', ''__attribute__'', ''struct'',
     ''char'', ''_dummy'', ''__attribute'', ''aligned'', ''__FUNCTION__'', ''__asm__'',
     ''__THROW'', ''bzero'', ''sizeof'', ''typedef'', ''gp_offset'', ''fp_offset'',
     ''union'', ''overflow_offset'', ''overflow_arg_area'', ''reg_save_area'',
     ''void'', ''__va_arg'', ''ap'', ''arg_type'', ''size'', ''align'',
     ''__builtin_frame_address'', ''__builtin_va_arg_types'', ''__alignof__'', ''c'',
     ''x'', ''__stack'', ''__gr_top'', ''__vr_top'', ''__gr_offs'', ''__vr_offs'',
     ''__riscv_xlen'', ''va_list'', ''__builtin_'', ''memcpy'', ''const'', ''memmove'',
     ''memset'', ''memcmp'', ''strlen'', ''strcpy'', ''strncpy'', ''strcmp'',
     ''strncmp'', ''strcat'', ''strncat'', ''strchr'', ''strrchr'', ''strdup'',
     ''__aeabi_memcpy'', ''__aeabi_memmove'', ''__aeabi_memmove4'',
     ''__aeabi_memmove8'', ''__aeabi_memset'', ''malloc'', ''realloc'', ''calloc'',
     ''memalign'', ''free'', ''alloca'', ''abort'', ''longjmp'', ''mmap'', ''munmap'']"

subsection \<open>Some targets and option settings\<close>

definition linux_x86_64 :: config where
  "linux_x86_64 = \<lparr>PTR_SIZE = 8, LONG_SIZE = 8,
     TARGETOS_Linux = True, TARGETOS_OpenBSD = False, TARGETOS_FreeBSD = False,
     TARGETOS_FreeBSD_kernel = False, TARGETOS_NetBSD = False, TARGETOS_ANDROID = False,
     TCC_TARGET_PE = False, TCC_TARGET_MACHO = False,
     TCC_TARGET_I386 = False, TCC_TARGET_X86_64 = True, TCC_TARGET_ARM = False,
     TCC_TARGET_ARM64 = False, TCC_TARGET_RISCV64 = False, TCC_ARM_EABI = False\<rparr>"

definition freebsd_x86_64 :: config where
  "freebsd_x86_64 = linux_x86_64\<lparr>TARGETOS_Linux := False, TARGETOS_FreeBSD := True\<rparr>"

definition netbsd_x86_64 :: config where
  "netbsd_x86_64 = linux_x86_64\<lparr>TARGETOS_Linux := False, TARGETOS_NetBSD := True\<rparr>"

definition openbsd_i386 :: config where
  "openbsd_i386 = linux_x86_64\<lparr>PTR_SIZE := 4, LONG_SIZE := 4,
     TARGETOS_Linux := False, TARGETOS_OpenBSD := True,
     TCC_TARGET_X86_64 := False, TCC_TARGET_I386 := True\<rparr>"

definition win64 :: config where
  "win64 = linux_x86_64\<lparr>LONG_SIZE := 4, TARGETOS_Linux := False, TCC_TARGET_PE := True\<rparr>"

definition linux_riscv64 :: config where
  "linux_riscv64 = linux_x86_64\<lparr>TCC_TARGET_X86_64 := False, TCC_TARGET_RISCV64 := True\<rparr>"

definition bounds_on :: options where
  "bounds_on = \<lparr>TCC_PP = False, leading_underscore = False, BOUNDS_CHECKING_ON = True\<rparr>"

definition bounds_off :: options where
  "bounds_off = \<lparr>TCC_PP = False, leading_underscore = False, BOUNDS_CHECKING_ON = False\<rparr>"

definition c11 :: macros where
  "c11 = Map.empty(''__STDC_VERSION__'' \<mapsto> Object_like ''201112L'')"

section \<open>Properties\<close>

subsection \<open>Preprocessing, line after line\<close>

lemma preprocess_Nil: "preprocess [] s = s"
  by (simp add: preprocess_def)

lemma preprocess_Cons: "preprocess (l # ls) s = preprocess ls (step l s)"
  by (simp add: preprocess_def)

lemma preprocess_append: "preprocess (xs @ ys) s = preprocess ys (preprocess xs s)"
  by (simp add: preprocess_def)

lemma definitions_of_Nil: "definitions_of n [] = []"
  by (simp add: definitions_of_def)

lemma definitions_of_Cons: "definitions_of n (l # ls) = definition_in n l @ definitions_of n ls"
  by (simp add: definitions_of_def)

lemma definitions_of_append:
  "definitions_of n (xs @ ys) = definitions_of n xs @ definitions_of n ys"
  by (simp add: definitions_of_def)

lemma touched_names_Nil: "touched_names [] = []"
  by (simp add: touched_names_def)

lemma touched_names_Cons: "touched_names (l # ls) = touched_name l @ touched_names ls"
  by (simp add: touched_names_def)

lemma touched_names_append: "touched_names (xs @ ys) = touched_names xs @ touched_names ys"
  by (simp add: touched_names_def)

text \<open>A name that no line of a run defines or undefines is as it was after the run.\<close>

lemma definition_in_untouched: "n \<notin> set (touched_name l) \<Longrightarrow> definition_in n l = []"
  by (auto simp: touched_name_def definition_in_def split: directive.splits)

lemma definitions_of_untouched:
  "n \<notin> set (touched_names ls) \<Longrightarrow> definitions_of n ls = []"
  by (induction ls) (auto simp: touched_names_def definitions_of_def definition_in_untouched)

lemma step_untouched: "n \<notin> set (touched_name l) \<Longrightarrow> macros (step l s) n = macros s n"
  by (auto simp: touched_name_def step_def split: directive.splits list.splits)

lemma preprocess_untouched:
  "n \<notin> set (touched_names ls) \<Longrightarrow> macros (preprocess ls s) n = macros s n"
proof (induction ls arbitrary: s)
  case Nil
  then show ?case by (simp add: preprocess_Nil)
next
  case (Cons l ls)
  from Cons.prems have a: "n \<notin> set (touched_name l)" and b: "n \<notin> set (touched_names ls)"
    by (simp_all add: touched_names_def)
  show ?case
    by (simp add: preprocess_Cons Cons.IH [OF b] step_untouched [OF a])
qed

lemma definitions_of_skip:
  "set (touched_names ls) \<subseteq> set ns \<Longrightarrow> n \<notin> set ns \<Longrightarrow> definitions_of n ls = []"
  by (rule definitions_of_untouched) auto

lemma preprocess_skip:
  "set (touched_names ls) \<subseteq> set ns \<Longrightarrow> n \<notin> set ns \<Longrightarrow>
   macros (preprocess ls s) n = macros s n"
  by (rule preprocess_untouched) auto

lemma nesting_append:
  "nesting d (xs @ ys) = (case nesting d xs of None \<Rightarrow> None | Some d' \<Rightarrow> nesting d' ys)"
  by (induction xs arbitrary: d) (auto split: directive.splits)

lemma active_append: "active (xs @ ys) = (active xs \<and> active ys)"
  by (induction xs) auto

lemma step_inactive: "\<not> active (conds s) \<Longrightarrow> macros (step l s) = macros s"
  by (auto simp: step_def split: directive.splits list.splits)

text \<open>
  A well-nested run of lines leaves the conditionals that were open before it as they
  were, and changes no macro when one of them is in a false branch.
\<close>

lemma preprocess_frame:
  "nesting (length st) ls = Some d \<Longrightarrow> conds s = st @ base \<Longrightarrow>
   \<exists>st'. length st' = d
      \<and> conds (preprocess ls s) = st' @ base
      \<and> (\<not> active base \<longrightarrow> macros (preprocess ls s) = macros s)"
proof (induction ls arbitrary: st s)
  case Nil
  then show ?case by (simp add: preprocess_Nil)
next
  case (Cons l ls)
  have keep: "\<not> active base \<Longrightarrow> macros (step l s) = macros s"
    using Cons.prems(2) by (simp add: step_inactive active_append)
  have "\<exists>st1. nesting (length st1) ls = Some d \<and> conds (step l s) = st1 @ base"
  proof (cases "directive_of l")
    case (Define n mm)
    with Cons.prems show ?thesis by (intro exI [of _ st]) (simp add: step_def)
  next
    case (Undef n)
    with Cons.prems show ?thesis by (intro exI [of _ st]) (simp add: step_def)
  next
    case (Ifdef n)
    with Cons.prems show ?thesis
      by (intro exI [of _ "(macros s n \<noteq> None) # st"]) (simp add: step_def)
  next
    case (Ifndef n)
    with Cons.prems show ?thesis
      by (intro exI [of _ "(macros s n = None) # st"]) (simp add: step_def)
  next
    case (If_eq a b)
    with Cons.prems show ?thesis
      by (intro exI [of _ "(operand_value (macros s) a \<noteq> None
            \<and> operand_value (macros s) a = operand_value (macros s) b) # st"])
         (simp add: step_def)
  next
    case Else
    with Cons.prems obtain b bs where st: "st = b # bs"
      by (cases st) (auto split: if_splits)
    with Else Cons.prems show ?thesis
      by (intro exI [of _ "(\<not> b) # bs"]) (simp add: step_def)
  next
    case Endif
    with Cons.prems obtain b bs where st: "st = b # bs"
      by (cases st) (auto split: if_splits)
    with Endif Cons.prems show ?thesis
      by (intro exI [of _ bs]) (simp add: step_def)
  next
    case Text
    with Cons.prems show ?thesis by (intro exI [of _ st]) (simp add: step_def)
  qed
  then obtain st1 where n: "nesting (length st1) ls = Some d"
    and c: "conds (step l s) = st1 @ base" by blast
  from Cons.IH [OF n c] keep show ?case
    by (auto simp: preprocess_Cons)
qed

lemma preprocess_balanced:
  assumes "nesting 0 ls = Some 0"
  shows "conds (preprocess ls s) = conds s"
    and "\<not> active (conds s) \<Longrightarrow> macros (preprocess ls s) = macros s"
  using preprocess_frame [of "[]" ls 0 s "conds s"] assms by auto

subsection \<open>The fragments, one by one\<close>

lemmas read_line = directive_of_def macro_of_def is_ident_char_def is_digit_def

lemmas read_touched = touched_names_Nil touched_names_Cons touched_names_append touched_name_def

lemmas read_definitions =
  definitions_of_Nil definitions_of_Cons definitions_of_append definition_in_def read_line

lemmas targets = linux_x86_64_def freebsd_x86_64_def netbsd_x86_64_def openbsd_i386_def
  win64_def linux_riscv64_def

text \<open>The macros each fragment defines or undefines, whatever the target.\<close>

lemma size_types_touched:
  "set (touched_names (size_types c)) \<subseteq>
   set [''__SIZE_TYPE__'', ''__PTRDIFF_TYPE__'', ''__ILP32__'', ''__INT64_TYPE__'',
        ''__LLP64__'', ''__LP64__'']"
  by (simp add: size_types_def read_touched read_line)

lemma int_limits_touched:
  "set (touched_names (int_limits c)) \<subseteq>
   set [''__SIZEOF_INT__'', ''__INT_MAX__'', ''__LONG_MAX__'',
        ''__SIZEOF_LONG_LONG__'', ''__LONG_LONG_MAX__'', ''__CHAR_BIT__'',
        ''__ORDER_LITTLE_ENDIAN__'', ''__ORDER_BIG_ENDIAN__'', ''__BYTE_ORDER__'']"
  by (simp add: int_limits_def read_touched read_line)

lemma wchar_types_touched:
  "set (touched_names (wchar_types c)) \<subseteq>
   set [''__WCHAR_TYPE__'', ''__WINT_TYPE__'']"
  by (simp add: wchar_types_def read_touched read_line)

lemma stdc_macros_touched:
  "set (touched_names (stdc_macros c)) \<subseteq>
   set [''__STDC_NO_ATOMICS__'', ''__STDC_NO_COMPLEX__'', ''__STDC_NO_THREADS__'',
        ''__STDC_UTF_16__'', ''__STDC_UTF_32__'']"
  by (simp add: stdc_macros_def read_touched read_line)

lemma os_identity_touched:
  "set (touched_names (os_identity c)) \<subseteq>
   set [''__declspec'', ''__cdecl'', ''__GNUC__'', ''__GNUC_MINOR__'',
        ''__GNUC_PATCHLEVEL__'', ''__GNUC_STDC_INLINE__'', ''__NO_TLS'',
        ''__RUNETYPE_INTERNAL'', ''__int128_t'', ''__SIZEOF_SIZE_T__'',
        ''__SIZEOF_PTRDIFF_T__'', ''_Pragma'', ''__ELF__'', ''_LOCORE'',
        ''_ANSI_LIBRARY'', ''__APPLE_CC__'', ''__LITTLE_ENDIAN__'',
        ''_DONT_USE_CTYPE_INLINE_'', ''__FINITE_MATH_ONLY__'', ''_FORTIFY_SOURCE'',
        ''BIONIC_IOCTL_NO_SIGNEDNESS_OVERLOAD'', ''__PRETTY_FUNCTION__'',
        ''__has_builtin'', ''_Nonnull'', ''_Nullable'']"
  by (simp add: os_identity_def read_touched read_line)

lemma intptr_types_touched:
  "set (touched_names (intptr_types c)) \<subseteq>
   set [''__UINTPTR_TYPE__'', ''__INTPTR_TYPE__'', ''__INT32_TYPE__'']"
  by (simp add: intptr_types_def read_touched read_line)

lemma glibc_redirect_touched:
  "set (touched_names (glibc_redirect c)) \<subseteq>
   set [''__REDIRECT'', ''__REDIRECT_NTH'']"
  by (simp add: glibc_redirect_def read_touched read_line)

lemma tcc_pp_begin_touched:
  "set (touched_names (tcc_pp_begin)) \<subseteq>
   set []"
  by (simp add: tcc_pp_begin_def read_touched read_line)

lemma builtin_macros_touched:
  "set (touched_names (builtin_macros c)) \<subseteq>
   set [''__builtin_offsetof'', ''__builtin_extract_return_addr'',
        ''__builtin_huge_val'', ''__builtin_huge_valf'', ''__builtin_huge_vall'',
        ''__builtin_nanf'', ''__builtin_flt_rounds'', ''__builtin_bzero'']"
  by (simp add: builtin_macros_def read_touched read_line)

lemma va_list_defs_touched:
  "set (touched_names (va_list_defs c)) \<subseteq>
   set [''__builtin_va_start'', ''__builtin_va_arg'', ''__builtin_va_copy'',
        ''_tcc_alignof'', ''_tcc_align'', ''__va_reg_size'', ''__builtin_va_end'']"
  by (simp add: va_list_defs_def read_touched read_line)

lemma alias_macros_touched:
  "set (touched_names (alias_macros c)) \<subseteq>
   set [''__RENAME'', ''__BUILTINBC'', ''__BOUND'', ''__BOTH'', ''__BUILTIN'']"
  by (simp add: alias_macros_def read_touched read_line)

lemma builtin_table_touched:
  "set (touched_names (builtin_table c)) \<subseteq>
   set [''__MAYBE_REDIR'']"
  by (simp add: builtin_table_def read_touched read_line)

lemma helper_cleanup_touched:
  "set (touched_names (helper_cleanup)) \<subseteq>
   set [''__BUILTINBC'', ''__BUILTIN'', ''__BOUND'', ''__BOTH'', ''__MAYBE_REDIR'',
        ''__RENAME'']"
  by (simp add: helper_cleanup_def read_touched read_line)

lemma tcc_pp_end_touched:
  "set (touched_names (tcc_pp_end)) \<subseteq>
   set []"
  by (simp add: tcc_pp_end_def read_touched read_line)

text \<open>The conditionals of each fragment are well nested.\<close>

lemma size_types_nesting: "nesting d (size_types c) = Some d"
  by (simp add: size_types_def nesting_append read_line)

lemma int_limits_nesting: "nesting d (int_limits c) = Some d"
  by (simp add: int_limits_def nesting_append read_line)

lemma wchar_types_nesting: "nesting d (wchar_types c) = Some d"
  by (simp add: wchar_types_def nesting_append read_line)

lemma stdc_macros_nesting: "nesting d (stdc_macros c) = Some d"
  by (simp add: stdc_macros_def nesting_append read_line)

lemma os_identity_nesting: "nesting d (os_identity c) = Some d"
  by (simp add: os_identity_def nesting_append read_line)

lemma intptr_types_nesting: "nesting d (intptr_types c) = Some d"
  by (simp add: intptr_types_def nesting_append read_line)

lemma glibc_redirect_nesting: "nesting d (glibc_redirect c) = Some d"
  by (simp add: glibc_redirect_def nesting_append read_line)

lemma tcc_pp_begin_nesting: "nesting d (tcc_pp_begin) = Some (Suc d)"
  by (simp add: tcc_pp_begin_def nesting_append read_line)

lemma builtin_macros_nesting: "nesting d (builtin_macros c) = Some d"
  by (simp add: builtin_macros_def nesting_append read_line)

lemma va_list_defs_nesting: "nesting d (va_list_defs c) = Some d"
  by (simp add: va_list_defs_def nesting_append read_line)

lemma alias_macros_nesting: "nesting d (alias_macros c) = Some d"
  by (simp add: alias_macros_def nesting_append read_line)

lemma builtin_table_nesting: "nesting d (builtin_table c) = Some d"
  by (simp add: builtin_table_def nesting_append read_line)

lemma helper_cleanup_nesting: "nesting d (helper_cleanup) = Some d"
  by (simp add: helper_cleanup_def nesting_append read_line)

lemma tcc_pp_end_nesting: "nesting (Suc d) (tcc_pp_end) = Some d"
  by (simp add: tcc_pp_end_def nesting_append read_line)

text \<open>What follows for the definitions of a name and for preprocessing.\<close>

lemma size_types_defines:
  "n \<notin> set [''__SIZE_TYPE__'', ''__PTRDIFF_TYPE__'', ''__ILP32__'',
                 ''__INT64_TYPE__'', ''__LLP64__'', ''__LP64__''] \<Longrightarrow>
   definitions_of n (size_types c) = []"
  by (rule definitions_of_skip [OF size_types_touched])

lemma size_types_keeps:
  "n \<notin> set [''__SIZE_TYPE__'', ''__PTRDIFF_TYPE__'', ''__ILP32__'',
                 ''__INT64_TYPE__'', ''__LLP64__'', ''__LP64__''] \<Longrightarrow>
   macros (preprocess (size_types c) s) n = macros s n"
  by (rule preprocess_skip [OF size_types_touched])

lemma size_types_conds: "conds (preprocess (size_types c) s) = conds s"
  by (rule preprocess_balanced [OF size_types_nesting])

lemma size_types_skipped:
  "\<not> active (conds s) \<Longrightarrow> macros (preprocess (size_types c) s) = macros s"
  by (rule preprocess_balanced [OF size_types_nesting])

lemma int_limits_defines:
  "n \<notin> set [''__SIZEOF_INT__'', ''__INT_MAX__'', ''__LONG_MAX__'',
                 ''__SIZEOF_LONG_LONG__'', ''__LONG_LONG_MAX__'', ''__CHAR_BIT__'',
                 ''__ORDER_LITTLE_ENDIAN__'', ''__ORDER_BIG_ENDIAN__'',
                 ''__BYTE_ORDER__''] \<Longrightarrow>
   definitions_of n (int_limits c) = []"
  by (rule definitions_of_skip [OF int_limits_touched])

lemma int_limits_keeps:
  "n \<notin> set [''__SIZEOF_INT__'', ''__INT_MAX__'', ''__LONG_MAX__'',
                 ''__SIZEOF_LONG_LONG__'', ''__LONG_LONG_MAX__'', ''__CHAR_BIT__'',
                 ''__ORDER_LITTLE_ENDIAN__'', ''__ORDER_BIG_ENDIAN__'',
                 ''__BYTE_ORDER__''] \<Longrightarrow>
   macros (preprocess (int_limits c) s) n = macros s n"
  by (rule preprocess_skip [OF int_limits_touched])

lemma int_limits_conds: "conds (preprocess (int_limits c) s) = conds s"
  by (rule preprocess_balanced [OF int_limits_nesting])

lemma int_limits_skipped:
  "\<not> active (conds s) \<Longrightarrow> macros (preprocess (int_limits c) s) = macros s"
  by (rule preprocess_balanced [OF int_limits_nesting])

lemma wchar_types_defines:
  "n \<notin> set [''__WCHAR_TYPE__'', ''__WINT_TYPE__''] \<Longrightarrow>
   definitions_of n (wchar_types c) = []"
  by (rule definitions_of_skip [OF wchar_types_touched])

lemma wchar_types_keeps:
  "n \<notin> set [''__WCHAR_TYPE__'', ''__WINT_TYPE__''] \<Longrightarrow>
   macros (preprocess (wchar_types c) s) n = macros s n"
  by (rule preprocess_skip [OF wchar_types_touched])

lemma wchar_types_conds: "conds (preprocess (wchar_types c) s) = conds s"
  by (rule preprocess_balanced [OF wchar_types_nesting])

lemma wchar_types_skipped:
  "\<not> active (conds s) \<Longrightarrow> macros (preprocess (wchar_types c) s) = macros s"
  by (rule preprocess_balanced [OF wchar_types_nesting])

lemma stdc_macros_defines:
  "n \<notin> set [''__STDC_NO_ATOMICS__'', ''__STDC_NO_COMPLEX__'',
                 ''__STDC_NO_THREADS__'', ''__STDC_UTF_16__'', ''__STDC_UTF_32__''] \<Longrightarrow>
   definitions_of n (stdc_macros c) = []"
  by (rule definitions_of_skip [OF stdc_macros_touched])

lemma stdc_macros_keeps:
  "n \<notin> set [''__STDC_NO_ATOMICS__'', ''__STDC_NO_COMPLEX__'',
                 ''__STDC_NO_THREADS__'', ''__STDC_UTF_16__'', ''__STDC_UTF_32__''] \<Longrightarrow>
   macros (preprocess (stdc_macros c) s) n = macros s n"
  by (rule preprocess_skip [OF stdc_macros_touched])

lemma stdc_macros_conds: "conds (preprocess (stdc_macros c) s) = conds s"
  by (rule preprocess_balanced [OF stdc_macros_nesting])

lemma stdc_macros_skipped:
  "\<not> active (conds s) \<Longrightarrow> macros (preprocess (stdc_macros c) s) = macros s"
  by (rule preprocess_balanced [OF stdc_macros_nesting])

lemma os_identity_defines:
  "n \<notin> set [''__declspec'', ''__cdecl'', ''__GNUC__'', ''__GNUC_MINOR__'',
                 ''__GNUC_PATCHLEVEL__'', ''__GNUC_STDC_INLINE__'', ''__NO_TLS'',
                 ''__RUNETYPE_INTERNAL'', ''__int128_t'', ''__SIZEOF_SIZE_T__'',
                 ''__SIZEOF_PTRDIFF_T__'', ''_Pragma'', ''__ELF__'', ''_LOCORE'',
                 ''_ANSI_LIBRARY'', ''__APPLE_CC__'', ''__LITTLE_ENDIAN__'',
                 ''_DONT_USE_CTYPE_INLINE_'', ''__FINITE_MATH_ONLY__'',
                 ''_FORTIFY_SOURCE'', ''BIONIC_IOCTL_NO_SIGNEDNESS_OVERLOAD'',
                 ''__PRETTY_FUNCTION__'', ''__has_builtin'', ''_Nonnull'',
                 ''_Nullable''] \<Longrightarrow>
   definitions_of n (os_identity c) = []"
  by (rule definitions_of_skip [OF os_identity_touched])

lemma os_identity_keeps:
  "n \<notin> set [''__declspec'', ''__cdecl'', ''__GNUC__'', ''__GNUC_MINOR__'',
                 ''__GNUC_PATCHLEVEL__'', ''__GNUC_STDC_INLINE__'', ''__NO_TLS'',
                 ''__RUNETYPE_INTERNAL'', ''__int128_t'', ''__SIZEOF_SIZE_T__'',
                 ''__SIZEOF_PTRDIFF_T__'', ''_Pragma'', ''__ELF__'', ''_LOCORE'',
                 ''_ANSI_LIBRARY'', ''__APPLE_CC__'', ''__LITTLE_ENDIAN__'',
                 ''_DONT_USE_CTYPE_INLINE_'', ''__FINITE_MATH_ONLY__'',
                 ''_FORTIFY_SOURCE'', ''BIONIC_IOCTL_NO_SIGNEDNESS_OVERLOAD'',
                 ''__PRETTY_FUNCTION__'', ''__has_builtin'', ''_Nonnull'',
                 ''_Nullable''] \<Longrightarrow>
   macros (preprocess (os_identity c) s) n = macros s n"
  by (rule preprocess_skip [OF os_identity_touched])

lemma os_identity_conds: "conds (preprocess (os_identity c) s) = conds s"
  by (rule preprocess_balanced [OF os_identity_nesting])

lemma os_identity_skipped:
  "\<not> active (conds s) \<Longrightarrow> macros (preprocess (os_identity c) s) = macros s"
  by (rule preprocess_balanced [OF os_identity_nesting])

lemma intptr_types_defines:
  "n \<notin> set [''__UINTPTR_TYPE__'', ''__INTPTR_TYPE__'', ''__INT32_TYPE__''] \<Longrightarrow>
   definitions_of n (intptr_types c) = []"
  by (rule definitions_of_skip [OF intptr_types_touched])

lemma intptr_types_keeps:
  "n \<notin> set [''__UINTPTR_TYPE__'', ''__INTPTR_TYPE__'', ''__INT32_TYPE__''] \<Longrightarrow>
   macros (preprocess (intptr_types c) s) n = macros s n"
  by (rule preprocess_skip [OF intptr_types_touched])

lemma intptr_types_conds: "conds (preprocess (intptr_types c) s) = conds s"
  by (rule preprocess_balanced [OF intptr_types_nesting])

lemma intptr_types_skipped:
  "\<not> active (conds s) \<Longrightarrow> macros (preprocess (intptr_types c) s) = macros s"
  by (rule preprocess_balanced [OF intptr_types_nesting])

lemma glibc_redirect_defines:
  "n \<notin> set [''__REDIRECT'', ''__REDIRECT_NTH''] \<Longrightarrow>
   definitions_of n (glibc_redirect c) = []"
  by (rule definitions_of_skip [OF glibc_redirect_touched])

lemma glibc_redirect_keeps:
  "n \<notin> set [''__REDIRECT'', ''__REDIRECT_NTH''] \<Longrightarrow>
   macros (preprocess (glibc_redirect c) s) n = macros s n"
  by (rule preprocess_skip [OF glibc_redirect_touched])

lemma glibc_redirect_conds: "conds (preprocess (glibc_redirect c) s) = conds s"
  by (rule preprocess_balanced [OF glibc_redirect_nesting])

lemma glibc_redirect_skipped:
  "\<not> active (conds s) \<Longrightarrow> macros (preprocess (glibc_redirect c) s) = macros s"
  by (rule preprocess_balanced [OF glibc_redirect_nesting])

lemma tcc_pp_begin_defines:
  "n \<notin> set [] \<Longrightarrow>
   definitions_of n (tcc_pp_begin) = []"
  by (rule definitions_of_skip [OF tcc_pp_begin_touched])

lemma tcc_pp_begin_keeps:
  "n \<notin> set [] \<Longrightarrow>
   macros (preprocess (tcc_pp_begin) s) n = macros s n"
  by (rule preprocess_skip [OF tcc_pp_begin_touched])

lemma builtin_macros_defines:
  "n \<notin> set [''__builtin_offsetof'', ''__builtin_extract_return_addr'',
                 ''__builtin_huge_val'', ''__builtin_huge_valf'',
                 ''__builtin_huge_vall'', ''__builtin_nanf'', ''__builtin_flt_rounds'',
                 ''__builtin_bzero''] \<Longrightarrow>
   definitions_of n (builtin_macros c) = []"
  by (rule definitions_of_skip [OF builtin_macros_touched])

lemma builtin_macros_keeps:
  "n \<notin> set [''__builtin_offsetof'', ''__builtin_extract_return_addr'',
                 ''__builtin_huge_val'', ''__builtin_huge_valf'',
                 ''__builtin_huge_vall'', ''__builtin_nanf'', ''__builtin_flt_rounds'',
                 ''__builtin_bzero''] \<Longrightarrow>
   macros (preprocess (builtin_macros c) s) n = macros s n"
  by (rule preprocess_skip [OF builtin_macros_touched])

lemma builtin_macros_conds: "conds (preprocess (builtin_macros c) s) = conds s"
  by (rule preprocess_balanced [OF builtin_macros_nesting])

lemma builtin_macros_skipped:
  "\<not> active (conds s) \<Longrightarrow> macros (preprocess (builtin_macros c) s) = macros s"
  by (rule preprocess_balanced [OF builtin_macros_nesting])

lemma va_list_defs_defines:
  "n \<notin> set [''__builtin_va_start'', ''__builtin_va_arg'', ''__builtin_va_copy'',
                 ''_tcc_alignof'', ''_tcc_align'', ''__va_reg_size'',
                 ''__builtin_va_end''] \<Longrightarrow>
   definitions_of n (va_list_defs c) = []"
  by (rule definitions_of_skip [OF va_list_defs_touched])

lemma va_list_defs_keeps:
  "n \<notin> set [''__builtin_va_start'', ''__builtin_va_arg'', ''__builtin_va_copy'',
                 ''_tcc_alignof'', ''_tcc_align'', ''__va_reg_size'',
                 ''__builtin_va_end''] \<Longrightarrow>
   macros (preprocess (va_list_defs c) s) n = macros s n"
  by (rule preprocess_skip [OF va_list_defs_touched])

lemma va_list_defs_conds: "conds (preprocess (va_list_defs c) s) = conds s"
  by (rule preprocess_balanced [OF va_list_defs_nesting])

lemma va_list_defs_skipped:
  "\<not> active (conds s) \<Longrightarrow> macros (preprocess (va_list_defs c) s) = macros s"
  by (rule preprocess_balanced [OF va_list_defs_nesting])

lemma alias_macros_defines:
  "n \<notin> set [''__RENAME'', ''__BUILTINBC'', ''__BOUND'', ''__BOTH'', ''__BUILTIN''] \<Longrightarrow>
   definitions_of n (alias_macros c) = []"
  by (rule definitions_of_skip [OF alias_macros_touched])

lemma alias_macros_keeps:
  "n \<notin> set [''__RENAME'', ''__BUILTINBC'', ''__BOUND'', ''__BOTH'', ''__BUILTIN''] \<Longrightarrow>
   macros (preprocess (alias_macros c) s) n = macros s n"
  by (rule preprocess_skip [OF alias_macros_touched])

lemma alias_macros_conds: "conds (preprocess (alias_macros c) s) = conds s"
  by (rule preprocess_balanced [OF alias_macros_nesting])

lemma alias_macros_skipped:
  "\<not> active (conds s) \<Longrightarrow> macros (preprocess (alias_macros c) s) = macros s"
  by (rule preprocess_balanced [OF alias_macros_nesting])

lemma builtin_table_defines:
  "n \<notin> set [''__MAYBE_REDIR''] \<Longrightarrow>
   definitions_of n (builtin_table c) = []"
  by (rule definitions_of_skip [OF builtin_table_touched])

lemma builtin_table_keeps:
  "n \<notin> set [''__MAYBE_REDIR''] \<Longrightarrow>
   macros (preprocess (builtin_table c) s) n = macros s n"
  by (rule preprocess_skip [OF builtin_table_touched])

lemma builtin_table_conds: "conds (preprocess (builtin_table c) s) = conds s"
  by (rule preprocess_balanced [OF builtin_table_nesting])

lemma builtin_table_skipped:
  "\<not> active (conds s) \<Longrightarrow> macros (preprocess (builtin_table c) s) = macros s"
  by (rule preprocess_balanced [OF builtin_table_nesting])

lemma helper_cleanup_defines:
  "n \<notin> set [''__BUILTINBC'', ''__BUILTIN'', ''__BOUND'', ''__BOTH'',
                 ''__MAYBE_REDIR'', ''__RENAME''] \<Longrightarrow>
   definitions_of n (helper_cleanup) = []"
  by (rule definitions_of_skip [OF helper_cleanup_touched])

lemma helper_cleanup_keeps:
  "n \<notin> set [''__BUILTINBC'', ''__BUILTIN'', ''__BOUND'', ''__BOTH'',
                 ''__MAYBE_REDIR'', ''__RENAME''] \<Longrightarrow>
   macros (preprocess (helper_cleanup) s) n = macros s n"
  by (rule preprocess_skip [OF helper_cleanup_touched])

lemma helper_cleanup_conds: "conds (preprocess (helper_cleanup) s) = conds s"
  by (rule preprocess_balanced [OF helper_cleanup_nesting])

lemma helper_cleanup_skipped:
  "\<not> active (conds s) \<Longrightarrow> macros (preprocess (helper_cleanup) s) = macros s"
  by (rule preprocess_balanced [OF helper_cleanup_nesting])

lemma tcc_pp_end_defines:
  "n \<notin> set [] \<Longrightarrow>
   definitions_of n (tcc_pp_end) = []"
  by (rule definitions_of_skip [OF tcc_pp_end_touched])

lemma tcc_pp_end_keeps:
  "n \<notin> set [] \<Longrightarrow>
   macros (preprocess (tcc_pp_end) s) n = macros s n"
  by (rule preprocess_skip [OF tcc_pp_end_touched])

lemmas fragment_defines =
  size_types_defines int_limits_defines wchar_types_defines stdc_macros_defines
  os_identity_defines intptr_types_defines glibc_redirect_defines tcc_pp_begin_defines
  builtin_macros_defines va_list_defs_defines alias_macros_defines
  builtin_table_defines helper_cleanup_defines tcc_pp_end_defines

lemmas fragment_keeps =
  size_types_keeps int_limits_keeps wchar_types_keeps stdc_macros_keeps
  os_identity_keeps intptr_types_keeps glibc_redirect_keeps tcc_pp_begin_keeps
  builtin_macros_keeps va_list_defs_keeps alias_macros_keeps builtin_table_keeps
  helper_cleanup_keeps tcc_pp_end_keeps

lemmas fragment_conds =
  size_types_conds int_limits_conds wchar_types_conds stdc_macros_conds
  os_identity_conds intptr_types_conds glibc_redirect_conds builtin_macros_conds
  va_list_defs_conds alias_macros_conds builtin_table_conds helper_cleanup_conds

lemmas fragment_skipped =
  size_types_skipped int_limits_skipped wchar_types_skipped stdc_macros_skipped
  os_identity_skipped intptr_types_skipped glibc_redirect_skipped
  builtin_macros_skipped va_list_defs_skipped alias_macros_skipped
  builtin_table_skipped helper_cleanup_skipped

subsection \<open>The definitions the text gives to the type and version macros\<close>

lemma size_type_definitions:
  "definitions_of ''__SIZE_TYPE__'' (tccdefs c) =
     [Object_like
       (if PTR_SIZE c = 4 then (if TARGETOS_OpenBSD c then ''unsigned long'' else ''unsigned int'')
        else if LONG_SIZE c = 4 then ''unsigned long long''
        else ''unsigned long'')]"
proof -
  have "definitions_of ''__SIZE_TYPE__'' (size_types c) =
     [Object_like
       (if PTR_SIZE c = 4 then (if TARGETOS_OpenBSD c then ''unsigned long'' else ''unsigned int'')
        else if LONG_SIZE c = 4 then ''unsigned long long''
        else ''unsigned long'')]"
    by (simp add: size_types_def read_definitions)
  then show ?thesis
    by (simp add: tccdefs_def definitions_of_append fragment_defines)
qed

lemma ptrdiff_type_definitions:
  "definitions_of ''__PTRDIFF_TYPE__'' (tccdefs c) =
     [Object_like
       (if PTR_SIZE c = 4 then (if TARGETOS_OpenBSD c then ''long'' else ''int'')
        else if LONG_SIZE c = 4 then ''long long''
        else ''long'')]"
proof -
  have "definitions_of ''__PTRDIFF_TYPE__'' (size_types c) =
     [Object_like
       (if PTR_SIZE c = 4 then (if TARGETOS_OpenBSD c then ''long'' else ''int'')
        else if LONG_SIZE c = 4 then ''long long''
        else ''long'')]"
    by (simp add: size_types_def read_definitions)
  then show ?thesis
    by (simp add: tccdefs_def definitions_of_append fragment_defines)
qed

lemma int64_type_definitions:
  "definitions_of ''__INT64_TYPE__'' (tccdefs c) =
     [Object_like
       (if PTR_SIZE c = 4 then ''long long''
        else if LONG_SIZE c = 4 then ''long long''
        else if TARGETOS_Linux c then ''long''
        else ''long long'')]"
proof -
  have "definitions_of ''__INT64_TYPE__'' (size_types c) =
     [Object_like
       (if PTR_SIZE c = 4 then ''long long''
        else if LONG_SIZE c = 4 then ''long long''
        else if TARGETOS_Linux c then ''long''
        else ''long long'')]"
    by (simp add: size_types_def read_definitions)
  then show ?thesis
    by (simp add: tccdefs_def definitions_of_append fragment_defines)
qed

lemma ilp32_definitions:
  "definitions_of ''__ILP32__'' (tccdefs c) = (if PTR_SIZE c = 4 then [Object_like ''1''] else [])"
proof -
  have "definitions_of ''__ILP32__'' (size_types c) =
      (if PTR_SIZE c = 4 then [Object_like ''1''] else [])"
    by (simp add: size_types_def read_definitions)
  then show ?thesis
    by (simp add: tccdefs_def definitions_of_append fragment_defines)
qed

lemma llp64_definitions:
  "definitions_of ''__LLP64__'' (tccdefs c) =
     (if PTR_SIZE c \<noteq> 4 \<and> LONG_SIZE c = 4 then [Object_like ''1''] else [])"
proof -
  have "definitions_of ''__LLP64__'' (size_types c) =
      (if PTR_SIZE c \<noteq> 4 \<and> LONG_SIZE c = 4 then [Object_like ''1''] else [])"
    by (simp add: size_types_def read_definitions)
  then show ?thesis
    by (simp add: tccdefs_def definitions_of_append fragment_defines)
qed

lemma lp64_definitions:
  "definitions_of ''__LP64__'' (tccdefs c) =
     (if PTR_SIZE c \<noteq> 4 \<and> LONG_SIZE c \<noteq> 4 then [Object_like ''1''] else [])"
proof -
  have "definitions_of ''__LP64__'' (size_types c) =
      (if PTR_SIZE c \<noteq> 4 \<and> LONG_SIZE c \<noteq> 4 then [Object_like ''1''] else [])"
    by (simp add: size_types_def read_definitions)
  then show ?thesis
    by (simp add: tccdefs_def definitions_of_append fragment_defines)
qed

lemma intptr_type_definitions:
  "definitions_of ''__INTPTR_TYPE__'' (tccdefs c) =
     (if TARGETOS_NetBSD c then [] else [Object_like ''__PTRDIFF_TYPE__''])"
proof -
  have "definitions_of ''__INTPTR_TYPE__'' (intptr_types c) =
     (if TARGETOS_NetBSD c then [] else [Object_like ''__PTRDIFF_TYPE__''])"
    by (simp add: intptr_types_def read_definitions)
  then show ?thesis
    by (simp add: tccdefs_def definitions_of_append fragment_defines)
qed

lemma gnuc_definitions:
  "definitions_of ''__GNUC__'' (tccdefs c) =
     (if TCC_TARGET_PE c then []
      else if TARGETOS_FreeBSD c then [Object_like ''9'']
      else if TARGETOS_FreeBSD_kernel c then []
      else if TARGETOS_NetBSD c then [Object_like ''4'']
      else if TARGETOS_OpenBSD c then [Object_like ''4'']
      else if TCC_TARGET_MACHO c then [Object_like ''4'']
      else [])"
proof -
  have "definitions_of ''__GNUC__'' (os_identity c) =
     (if TCC_TARGET_PE c then []
      else if TARGETOS_FreeBSD c then [Object_like ''9'']
      else if TARGETOS_FreeBSD_kernel c then []
      else if TARGETOS_NetBSD c then [Object_like ''4'']
      else if TARGETOS_OpenBSD c then [Object_like ''4'']
      else if TCC_TARGET_MACHO c then [Object_like ''4'']
      else [])"
    by (simp add: os_identity_def read_definitions)
  then show ?thesis
    by (simp add: tccdefs_def definitions_of_append fragment_defines)
qed

lemma gnuc_minor_definitions:
  "definitions_of ''__GNUC_MINOR__'' (tccdefs c) =
     (if TCC_TARGET_PE c then []
      else if TARGETOS_FreeBSD c then [Object_like ''3'']
      else if TARGETOS_FreeBSD_kernel c then []
      else if TARGETOS_NetBSD c then [Object_like ''1'']
      else [])"
proof -
  have "definitions_of ''__GNUC_MINOR__'' (os_identity c) =
     (if TCC_TARGET_PE c then []
      else if TARGETOS_FreeBSD c then [Object_like ''3'']
      else if TARGETOS_FreeBSD_kernel c then []
      else if TARGETOS_NetBSD c then [Object_like ''1'']
      else [])"
    by (simp add: os_identity_def read_definitions)
  then show ?thesis
    by (simp add: tccdefs_def definitions_of_append fragment_defines)
qed

lemma gnuc_patchlevel_definitions:
  "definitions_of ''__GNUC_PATCHLEVEL__'' (tccdefs c) =
     (if TCC_TARGET_PE c then []
      else if TARGETOS_FreeBSD c then [Object_like ''0'']
      else if TARGETOS_FreeBSD_kernel c then []
      else if TARGETOS_NetBSD c then [Object_like ''0'']
      else [])"
proof -
  have "definitions_of ''__GNUC_PATCHLEVEL__'' (os_identity c) =
     (if TCC_TARGET_PE c then []
      else if TARGETOS_FreeBSD c then [Object_like ''0'']
      else if TARGETOS_FreeBSD_kernel c then []
      else if TARGETOS_NetBSD c then [Object_like ''0'']
      else [])"
    by (simp add: os_identity_def read_definitions)
  then show ?thesis
    by (simp add: tccdefs_def definitions_of_append fragment_defines)
qed


subsection \<open>The macros of strict C11 and the removal of the helper macros\<close>

text \<open>
  The block of lines 71 to 79 is read with no conditional open, and nothing after it
  touches the macros it defines; the six \<^verbatim>\<open>#undef\<close> of lines 299 to 304 are read inside
  the conditional of line 153.
\<close>

lemma c11_literal: "operand_value m ''201112L'' = Some 201112"
  by (simp add: operand_value_def int_literal_def is_digit_def)

lemma c11_version: "operand_value c11 ''__STDC_VERSION__'' = Some 201112"
  by (simp add: c11_def operand_value_def int_literal_def is_digit_def)

lemma operand_value_same: "m n = m' n \<Longrightarrow> operand_value m n = operand_value m' n"
  by (auto simp: operand_value_def)

lemma stdc_macros_c11:
  assumes "conds s = []" and "operand_value (macros s) ''__STDC_VERSION__'' = Some 201112"
  shows "macros (preprocess (stdc_macros c) s) =
    (if TCC_TARGET_PE c then
       (macros s)(''__STDC_NO_ATOMICS__'' \<mapsto> Object_like ''1'',
                  ''__STDC_NO_COMPLEX__'' \<mapsto> Object_like ''1'',
                  ''__STDC_NO_THREADS__'' \<mapsto> Object_like ''1'')
     else
       (macros s)(''__STDC_NO_ATOMICS__'' \<mapsto> Object_like ''1'',
                  ''__STDC_NO_COMPLEX__'' \<mapsto> Object_like ''1'',
                  ''__STDC_NO_THREADS__'' \<mapsto> Object_like ''1'',
                  ''__STDC_UTF_16__'' \<mapsto> Object_like ''1'',
                  ''__STDC_UTF_32__'' \<mapsto> Object_like ''1''))"
  using assms
  by (simp add: stdc_macros_def preprocess_Cons preprocess_Nil step_def read_line c11_literal)

lemma predefs_c11:
  assumes v: "operand_value env ''__STDC_VERSION__'' = Some 201112"
    and n: "n \<in> set [''__STDC_NO_ATOMICS__'', ''__STDC_NO_COMPLEX__'', ''__STDC_NO_THREADS__'',
                      ''__STDC_UTF_16__'', ''__STDC_UTF_32__'']"
  shows "predefs c env n =
    (if TCC_TARGET_PE c \<and> n \<in> set [''__STDC_UTF_16__'', ''__STDC_UTF_32__''] then env n
     else Some (Object_like ''1''))"
proof -
  define s1 where "s1 = preprocess (wchar_types c) (preprocess (int_limits c)
      (preprocess (size_types c) \<lparr>macros = env, conds = []\<rparr>))"
  have c1: "conds s1 = []"
    by (simp add: s1_def fragment_conds)
  have "macros s1 ''__STDC_VERSION__'' = env ''__STDC_VERSION__''"
    by (simp add: s1_def fragment_keeps)
  from operand_value_same [of "macros s1" "''__STDC_VERSION__''" env, OF this] v
  have v1: "operand_value (macros s1) ''__STDC_VERSION__'' = Some 201112"
    by simp
  have m1: "macros s1 n = env n"
    using n by (auto simp: s1_def fragment_keeps)
  have rest: "predefs c env n = macros (preprocess (stdc_macros c) s1) n"
    using n by (auto simp: predefs_def tccdefs_def preprocess_append s1_def fragment_keeps)
  show ?thesis
    unfolding rest stdc_macros_c11 [OF c1 v1] using n m1 by auto
qed

lemma utf_definitions:
  "definitions_of ''__STDC_UTF_16__'' (tccdefs c) =
     (if TCC_TARGET_PE c then [] else [Object_like ''1''])"
  "definitions_of ''__STDC_UTF_32__'' (tccdefs c) =
     (if TCC_TARGET_PE c then [] else [Object_like ''1''])"
proof -
  have "definitions_of ''__STDC_UTF_16__'' (stdc_macros c) =
     (if TCC_TARGET_PE c then [] else [Object_like ''1''])"
    by (simp add: stdc_macros_def read_definitions)
  then show "definitions_of ''__STDC_UTF_16__'' (tccdefs c) =
     (if TCC_TARGET_PE c then [] else [Object_like ''1''])"
    by (simp add: tccdefs_def definitions_of_append fragment_defines)
  have "definitions_of ''__STDC_UTF_32__'' (stdc_macros c) =
     (if TCC_TARGET_PE c then [] else [Object_like ''1''])"
    by (simp add: stdc_macros_def read_definitions)
  then show "definitions_of ''__STDC_UTF_32__'' (tccdefs c) =
     (if TCC_TARGET_PE c then [] else [Object_like ''1''])"
    by (simp add: tccdefs_def definitions_of_append fragment_defines)
qed

text \<open>Outside strict C11 the block changes nothing.\<close>

lemma stdc_macros_other:
  assumes "operand_value (macros s) ''__STDC_VERSION__'' \<noteq> Some 201112"
  shows "macros (preprocess (stdc_macros c) s) = macros s"
proof -
  have "\<not> active (False # conds s)" by simp
  with assms show ?thesis
    by (simp add: stdc_macros_def preprocess_Cons preprocess_Nil step_def read_line c11_literal
        eq_commute [of "Some 201112"])
qed


lemma helper_cleanup_active:
  assumes "active (conds s)"
    and "h \<in> set [''__BUILTINBC'', ''__BUILTIN'', ''__BOUND'', ''__BOTH'', ''__MAYBE_REDIR'',
                    ''__RENAME'']"
  shows "macros (preprocess helper_cleanup s) h = None"
  using assms
  by (auto simp: helper_cleanup_def preprocess_Cons preprocess_Nil step_def read_line)

lemma helper_cleanup_inactive:
  assumes "\<not> active (conds s)"
  shows "macros (preprocess helper_cleanup s) = macros s"
  using assms
  by (simp add: helper_cleanup_def preprocess_Cons preprocess_Nil step_def read_line)

lemma predefs_helper:
  assumes h: "h \<in> set [''__BUILTINBC'', ''__BUILTIN'', ''__BOUND'', ''__BOTH'', ''__MAYBE_REDIR'',
                    ''__RENAME'']"
  shows "predefs c env h = (if env ''__TCC_PP__'' = None then None else env h)"
proof -
  define s1 where "s1 = preprocess (glibc_redirect c) (preprocess (intptr_types c)
      (preprocess (os_identity c) (preprocess (stdc_macros c) (preprocess (wchar_types c)
      (preprocess (int_limits c) (preprocess (size_types c) \<lparr>macros = env, conds = []\<rparr>))))))"
  have c1: "conds s1 = []"
    by (simp add: s1_def fragment_conds)
  have m1: "macros s1 h = env h"
    using h by (auto simp: s1_def fragment_keeps)
  have p1: "macros s1 ''__TCC_PP__'' = env ''__TCC_PP__''"
    by (simp add: s1_def fragment_keeps)
  define s2 where "s2 = preprocess tcc_pp_begin s1"
  have c2: "conds s2 = [env ''__TCC_PP__'' = None]" and m2: "macros s2 = macros s1"
    by (simp_all add: s2_def tcc_pp_begin_def preprocess_Cons preprocess_Nil step_def read_line
        c1 p1)
  define s3 where "s3 = preprocess (builtin_table c) (preprocess (alias_macros c)
      (preprocess (va_list_defs c) (preprocess (builtin_macros c) s2)))"
  have c3: "conds s3 = [env ''__TCC_PP__'' = None]"
    by (simp add: s3_def fragment_conds c2)
  have m3: "env ''__TCC_PP__'' \<noteq> None \<Longrightarrow> macros s3 = macros s2"
    by (simp add: s3_def fragment_conds fragment_skipped c2)
  define s4 where "s4 = preprocess helper_cleanup s3"
  have m4: "macros s4 h = (if env ''__TCC_PP__'' = None then None else env h)"
  proof (cases "env ''__TCC_PP__'' = None")
    case True
    then have "active (conds s3)" by (simp add: c3)
    from helper_cleanup_active [OF this h] True show ?thesis by (simp add: s4_def)
  next
    case False
    then have "\<not> active (conds s3)" by (simp add: c3)
    from helper_cleanup_inactive [OF this] m3 [OF False] m2 m1 False show ?thesis
      by (auto simp: s4_def)
  qed
  have "predefs c env h = macros (preprocess tcc_pp_end s4) h"
    by (simp add: predefs_def tccdefs_def preprocess_append s1_def s2_def s3_def s4_def)
  also have "\<dots> = macros s4 h"
    by (simp add: tcc_pp_end_def preprocess_Cons preprocess_Nil step_def read_line)
  finally show ?thesis by (simp add: m4)
qed

subsection \<open>The helper macros and the declarations of the table\<close>

text \<open>
  The definitions of the helper macros that are in force when the table is read: they
  are the texts that the functions \<open>RENAME\<close>, \<open>BUILTINBC\<close>, \<open>BOUND\<close>, \<open>BOTH\<close> and
  \<open>BUILTIN\<close> translate, under the same conditions.
\<close>

lemma alias_macros_run:
  assumes "active (conds s)"
  shows \<open>macros (preprocess (alias_macros c) s) ''__RENAME'' =
      Some (Function_like [''X'']
        (if macros s ''__leading_underscore'' \<noteq> None then ''__asm__("_"X)'' else ''__asm__(X)''))\<close>
    and \<open>macros (preprocess (alias_macros c) s) ''__BUILTINBC'' =
      Some (Function_like [''ret'', ''name'', ''params'']
        (if macros s ''__BOUNDS_CHECKING_ON'' \<noteq> None
         then ''ret __builtin_##name params __RENAME("__bound_"#name);''
         else ''ret __builtin_##name params __RENAME(#name);''))\<close>
    and \<open>macros (preprocess (alias_macros c) s) ''__BOUND'' =
      Some (Function_like [''ret'', ''name'', ''params'']
        (if macros s ''__BOUNDS_CHECKING_ON'' \<noteq> None
         then ''ret name params __RENAME("__bound_"#name);''
         else []))\<close>
    and \<open>macros (preprocess (alias_macros c) s) ''__BOTH'' =
      Some (if TCC_TARGET_PE c then Object_like ''__BOUND''
            else Function_like [''ret'', ''name'', ''params'']
                   ''__BUILTINBC(ret,name,params)__BOUND(ret,name,params)'')\<close>
    and \<open>macros (preprocess (alias_macros c) s) ''__BUILTIN'' =
      Some (Function_like [''ret'', ''name'', ''params'']
        (if TCC_TARGET_PE c then []
         else ''ret __builtin_##name params __RENAME(#name);''))\<close>
proof -
  obtain m cs where s: "s = \<lparr>macros = m, conds = cs\<rparr>" by (cases s) simp
  with assms have a: "active cs" by simp
  consider "m ''__leading_underscore'' = None" "m ''__BOUNDS_CHECKING_ON'' = None"
    | "m ''__leading_underscore'' = None" "m ''__BOUNDS_CHECKING_ON'' \<noteq> None"
    | "m ''__leading_underscore'' \<noteq> None" "m ''__BOUNDS_CHECKING_ON'' = None"
    | "m ''__leading_underscore'' \<noteq> None" "m ''__BOUNDS_CHECKING_ON'' \<noteq> None"
    by blast
  then have \<open>macros (preprocess (alias_macros c) s) =
     m(''__RENAME'' \<mapsto> Function_like [''X'']
          (if m ''__leading_underscore'' \<noteq> None then ''__asm__("_"X)'' else ''__asm__(X)''),
       ''__BUILTINBC'' \<mapsto> Function_like [''ret'', ''name'', ''params'']
          (if m ''__BOUNDS_CHECKING_ON'' \<noteq> None
           then ''ret __builtin_##name params __RENAME("__bound_"#name);''
           else ''ret __builtin_##name params __RENAME(#name);''),
       ''__BOUND'' \<mapsto> Function_like [''ret'', ''name'', ''params'']
          (if m ''__BOUNDS_CHECKING_ON'' \<noteq> None
           then ''ret name params __RENAME("__bound_"#name);''
           else []),
       ''__BOTH'' \<mapsto> (if TCC_TARGET_PE c then Object_like ''__BOUND''
            else Function_like [''ret'', ''name'', ''params'']
                   ''__BUILTINBC(ret,name,params)__BOUND(ret,name,params)''),
       ''__BUILTIN'' \<mapsto> Function_like [''ret'', ''name'', ''params'']
          (if TCC_TARGET_PE c then []
           else ''ret __builtin_##name params __RENAME(#name);''))\<close>
    by cases
      (simp_all add: s a alias_macros_def preprocess_Cons preprocess_Nil step_def read_line)
  then show
    \<open>macros (preprocess (alias_macros c) s) ''__RENAME'' =
      Some (Function_like [''X'']
        (if macros s ''__leading_underscore'' \<noteq> None then ''__asm__("_"X)'' else ''__asm__(X)''))\<close>
    \<open>macros (preprocess (alias_macros c) s) ''__BUILTINBC'' =
      Some (Function_like [''ret'', ''name'', ''params'']
        (if macros s ''__BOUNDS_CHECKING_ON'' \<noteq> None
         then ''ret __builtin_##name params __RENAME("__bound_"#name);''
         else ''ret __builtin_##name params __RENAME(#name);''))\<close>
    \<open>macros (preprocess (alias_macros c) s) ''__BOUND'' =
      Some (Function_like [''ret'', ''name'', ''params'']
        (if macros s ''__BOUNDS_CHECKING_ON'' \<noteq> None
         then ''ret name params __RENAME("__bound_"#name);''
         else []))\<close>
    \<open>macros (preprocess (alias_macros c) s) ''__BOTH'' =
      Some (if TCC_TARGET_PE c then Object_like ''__BOUND''
            else Function_like [''ret'', ''name'', ''params'']
                   ''__BUILTINBC(ret,name,params)__BOUND(ret,name,params)'')\<close>
    \<open>macros (preprocess (alias_macros c) s) ''__BUILTIN'' =
      Some (Function_like [''ret'', ''name'', ''params'']
        (if TCC_TARGET_PE c then []
         else ''ret __builtin_##name params __RENAME(#name);''))\<close>
    by (simp_all add: s)
qed

lemma table_macros_state:
  assumes "env ''__TCC_PP__'' = None"
  shows "\<exists>s. table_macros c env = macros (preprocess (alias_macros c) s) \<and> active (conds s)
    \<and> macros s ''__leading_underscore'' = env ''__leading_underscore''
    \<and> macros s ''__BOUNDS_CHECKING_ON'' = env ''__BOUNDS_CHECKING_ON''"
proof -
  define s1 where "s1 = preprocess (glibc_redirect c) (preprocess (intptr_types c)
      (preprocess (os_identity c) (preprocess (stdc_macros c) (preprocess (wchar_types c)
      (preprocess (int_limits c) (preprocess (size_types c) \<lparr>macros = env, conds = []\<rparr>))))))"
  have c1: "conds s1 = []"
    by (simp add: s1_def fragment_conds)
  have m1: "macros s1 ''__TCC_PP__'' = env ''__TCC_PP__''"
    "macros s1 ''__leading_underscore'' = env ''__leading_underscore''"
    "macros s1 ''__BOUNDS_CHECKING_ON'' = env ''__BOUNDS_CHECKING_ON''"
    by (simp_all add: s1_def fragment_keeps)
  define s2 where "s2 = preprocess tcc_pp_begin s1"
  have c2: "conds s2 = [True]" and m2: "macros s2 = macros s1"
    using assms
    by (simp_all add: s2_def tcc_pp_begin_def preprocess_Cons preprocess_Nil step_def read_line
        c1 m1)
  define s3 where "s3 = preprocess (va_list_defs c) (preprocess (builtin_macros c) s2)"
  have c3: "active (conds s3)"
    by (simp add: s3_def fragment_conds c2)
  have m3: "macros s3 ''__leading_underscore'' = env ''__leading_underscore''"
    "macros s3 ''__BOUNDS_CHECKING_ON'' = env ''__BOUNDS_CHECKING_ON''"
    by (simp_all add: s3_def fragment_keeps m2 m1)
  have "table_macros c env = macros (preprocess (alias_macros c) s3)"
    by (simp add: table_macros_def before_table_def preprocess_append s1_def s2_def s3_def)
  with c3 m3 show ?thesis by blast
qed

lemma helper_macros_in_force:
  assumes "env ''__TCC_PP__'' = None"
  shows \<open>table_macros c env ''__RENAME'' =
      Some (Function_like [''X'']
        (if leading_underscore (options_of env) then ''__asm__("_"X)'' else ''__asm__(X)''))\<close>
    and \<open>table_macros c env ''__BUILTINBC'' =
      Some (Function_like [''ret'', ''name'', ''params'']
        (if BOUNDS_CHECKING_ON (options_of env)
         then ''ret __builtin_##name params __RENAME("__bound_"#name);''
         else ''ret __builtin_##name params __RENAME(#name);''))\<close>
    and \<open>table_macros c env ''__BOUND'' =
      Some (Function_like [''ret'', ''name'', ''params'']
        (if BOUNDS_CHECKING_ON (options_of env)
         then ''ret name params __RENAME("__bound_"#name);''
         else []))\<close>
    and \<open>table_macros c env ''__BOTH'' =
      Some (if TCC_TARGET_PE c then Object_like ''__BOUND''
            else Function_like [''ret'', ''name'', ''params'']
                   ''__BUILTINBC(ret,name,params)__BOUND(ret,name,params)'')\<close>
    and \<open>table_macros c env ''__BUILTIN'' =
      Some (Function_like [''ret'', ''name'', ''params'']
        (if TCC_TARGET_PE c then []
         else ''ret __builtin_##name params __RENAME(#name);''))\<close>
proof -
  from table_macros_state [of env c] assms obtain s
    where t: "table_macros c env = macros (preprocess (alias_macros c) s)"
      and a: "active (conds s)"
      and l: "macros s ''__leading_underscore'' = env ''__leading_underscore''"
      and b: "macros s ''__BOUNDS_CHECKING_ON'' = env ''__BOUNDS_CHECKING_ON''"
    by blast
  note r = alias_macros_run [OF a, of c]
  show \<open>table_macros c env ''__RENAME'' =
      Some (Function_like [''X'']
        (if leading_underscore (options_of env) then ''__asm__("_"X)'' else ''__asm__(X)''))\<close>
    by (simp only: t r l options_of_def options.simps)
  show \<open>table_macros c env ''__BUILTINBC'' =
      Some (Function_like [''ret'', ''name'', ''params'']
        (if BOUNDS_CHECKING_ON (options_of env)
         then ''ret __builtin_##name params __RENAME("__bound_"#name);''
         else ''ret __builtin_##name params __RENAME(#name);''))\<close>
    by (simp only: t r b options_of_def options.simps)
  show \<open>table_macros c env ''__BOUND'' =
      Some (Function_like [''ret'', ''name'', ''params'']
        (if BOUNDS_CHECKING_ON (options_of env)
         then ''ret name params __RENAME("__bound_"#name);''
         else []))\<close>
    by (simp only: t r b options_of_def options.simps)
  show \<open>table_macros c env ''__BOTH'' =
      Some (if TCC_TARGET_PE c then Object_like ''__BOUND''
            else Function_like [''ret'', ''name'', ''params'']
                   ''__BUILTINBC(ret,name,params)__BOUND(ret,name,params)'')\<close>
    by (simp only: t r)
  show \<open>table_macros c env ''__BUILTIN'' =
      Some (Function_like [''ret'', ''name'', ''params'']
        (if TCC_TARGET_PE c then []
         else ''ret __builtin_##name params __RENAME(#name);''))\<close>
    by (simp only: t r)
qed

lemma expand_nothing:
  "TCC_TARGET_PE c \<Longrightarrow> \<not> BOUNDS_CHECKING_ON opt \<Longrightarrow> expand c opt l = []"
  by (auto simp: expand_def BOTH_def BOUND_def BUILTIN_def MAYBE_REDIR_def
      split: option.splits list.splits prod.splits)

lemma no_declarations:
  "TCC_TARGET_PE c \<Longrightarrow> \<not> BOUNDS_CHECKING_ON opt \<Longrightarrow> builtin_declarations c opt = []"
  by (simp add: builtin_declarations_def expand_nothing)

text \<open>The table, read as calls of the helper macros.\<close>

lemma builtin_table_expansion:
  "concat (map (expand c opt) (builtin_table c)) =
     BOTH c opt ''void*'' ''memcpy'' ''(void*,const void*,__SIZE_TYPE__)''
   @ BOTH c opt ''void*'' ''memmove'' ''(void*,const void*,__SIZE_TYPE__)''
   @ BOTH c opt ''void*'' ''memset'' ''(void*,int,__SIZE_TYPE__)''
   @ BOTH c opt ''int'' ''memcmp'' ''(const void*,const void*,__SIZE_TYPE__)''
   @ BOTH c opt ''__SIZE_TYPE__'' ''strlen'' ''(const char*)''
   @ BOTH c opt ''char*'' ''strcpy'' ''(char*,const char*)''
   @ BOTH c opt ''char*'' ''strncpy'' ''(char*,const char*,__SIZE_TYPE__)''
   @ BOTH c opt ''int'' ''strcmp'' ''(const char*,const char*)''
   @ BOTH c opt ''int'' ''strncmp'' ''(const char*,const char*,__SIZE_TYPE__)''
   @ BOTH c opt ''char*'' ''strcat'' ''(char*,const char*)''
   @ BOTH c opt ''char*'' ''strncat'' ''(char*,const char*,__SIZE_TYPE__)''
   @ BOTH c opt ''char*'' ''strchr'' ''(const char*,int)''
   @ BOTH c opt ''char*'' ''strrchr'' ''(const char*,int)''
   @ BOTH c opt ''char*'' ''strdup'' ''(const char*)''
   @ (if TCC_ARM_EABI c then
        BOUND opt ''void*'' ''__aeabi_memcpy'' ''(void*,const void*,__SIZE_TYPE__)''
      @ BOUND opt ''void*'' ''__aeabi_memmove'' ''(void*,const void*,__SIZE_TYPE__)''
      @ BOUND opt ''void*'' ''__aeabi_memmove4'' ''(void*,const void*,__SIZE_TYPE__)''
      @ BOUND opt ''void*'' ''__aeabi_memmove8'' ''(void*,const void*,__SIZE_TYPE__)''
      @ BOUND opt ''void*'' ''__aeabi_memset'' ''(void*,int,__SIZE_TYPE__)''
      else [])
   @ MAYBE_REDIR c opt ''void*'' ''malloc'' ''(__SIZE_TYPE__)''
   @ MAYBE_REDIR c opt ''void*'' ''realloc'' ''(void*,__SIZE_TYPE__)''
   @ MAYBE_REDIR c opt ''void*'' ''calloc'' ''(__SIZE_TYPE__,__SIZE_TYPE__)''
   @ MAYBE_REDIR c opt ''void*'' ''memalign'' ''(__SIZE_TYPE__,__SIZE_TYPE__)''
   @ MAYBE_REDIR c opt ''void'' ''free'' ''(void*)''
   @ (if TCC_TARGET_I386 c \<or> TCC_TARGET_X86_64 c
      then BOTH c opt ''void*'' ''alloca'' ''(__SIZE_TYPE__)''
      else BUILTIN c opt ''void*'' ''alloca'' ''(__SIZE_TYPE__)'')
   @ BUILTIN c opt ''void'' ''abort'' ''(void)''
   @ BOUND opt ''void'' ''longjmp'' ''()''
   @ (if \<not> TCC_TARGET_PE c then
        BOUND opt ''void*'' ''mmap'' ''()''
      @ BOUND opt ''int'' ''munmap'' ''()''
      else [])"
  by (simp add: builtin_table_def expand_def invocation_of_def is_ident_char_def)

lemma other_entry:
  assumes "n \<noteq> name" and "''__builtin_'' @ n \<noteq> name" and "n \<noteq> ''__builtin_'' @ name"
  shows "filter (declares name) (BOUND opt r n p) = []"
    and "filter (declares name) (BUILTINBC opt r n p) = []"
    and "filter (declares name) (BUILTIN c opt r n p) = []"
    and "filter (declares name) (BOTH c opt r n p) = []"
    and "filter (declares name) (MAYBE_REDIR c opt r n p) = []"
  using assms
  by (simp_all add: declares_def BOUND_def BUILTINBC_def BUILTIN_def BOTH_def MAYBE_REDIR_def)

lemma malloc_declarations:
  assumes "\<not> TCC_TARGET_PE c" and "\<not> TCC_PP opt"
  shows "declarations_of ''malloc'' c opt =
    (if TARGETOS_Linux c \<or> TCC_TARGET_MACHO c then
       [\<lparr>decl_type = ''void*'', decl_name = ''__builtin_malloc'',
         decl_params = ''(__SIZE_TYPE__)'', decl_symbol = RENAME opt ''malloc''\<rparr>]
     else if BOUNDS_CHECKING_ON opt then
       [\<lparr>decl_type = ''void*'', decl_name = ''__builtin_malloc'',
         decl_params = ''(__SIZE_TYPE__)'', decl_symbol = RENAME opt ''__bound_malloc''\<rparr>,
        \<lparr>decl_type = ''void*'', decl_name = ''malloc'',
         decl_params = ''(__SIZE_TYPE__)'', decl_symbol = RENAME opt ''__bound_malloc''\<rparr>]
     else
       [\<lparr>decl_type = ''void*'', decl_name = ''__builtin_malloc'',
         decl_params = ''(__SIZE_TYPE__)'', decl_symbol = RENAME opt ''malloc''\<rparr>])"
proof -
  have m: "filter (declares ''malloc'') (MAYBE_REDIR c opt ''void*'' ''malloc'' ''(__SIZE_TYPE__)'') =
    (if TARGETOS_Linux c \<or> TCC_TARGET_MACHO c then
       [\<lparr>decl_type = ''void*'', decl_name = ''__builtin_malloc'',
         decl_params = ''(__SIZE_TYPE__)'', decl_symbol = RENAME opt ''malloc''\<rparr>]
     else if BOUNDS_CHECKING_ON opt then
       [\<lparr>decl_type = ''void*'', decl_name = ''__builtin_malloc'',
         decl_params = ''(__SIZE_TYPE__)'', decl_symbol = RENAME opt ''__bound_malloc''\<rparr>,
        \<lparr>decl_type = ''void*'', decl_name = ''malloc'',
         decl_params = ''(__SIZE_TYPE__)'', decl_symbol = RENAME opt ''__bound_malloc''\<rparr>]
     else
       [\<lparr>decl_type = ''void*'', decl_name = ''__builtin_malloc'',
         decl_params = ''(__SIZE_TYPE__)'', decl_symbol = RENAME opt ''malloc''\<rparr>])"
    using assms
    by (simp add: declares_def MAYBE_REDIR_def BOTH_def BUILTIN_def BUILTINBC_def BOUND_def)
  show ?thesis
    using assms
    by (simp add: declarations_of_def builtin_declarations_def builtin_table_expansion
        other_entry m)
qed

lemma maybe_redir_definitions:
  "definitions_of ''__MAYBE_REDIR'' (tccdefs c) =
     [Object_like (if TARGETOS_Linux c \<or> TCC_TARGET_MACHO c then ''__BUILTIN'' else ''__BOTH'')]"
proof -
  have "definitions_of ''__MAYBE_REDIR'' (builtin_table c) =
     [Object_like (if TARGETOS_Linux c \<or> TCC_TARGET_MACHO c then ''__BUILTIN'' else ''__BOTH'')]"
    by (simp add: builtin_table_def read_definitions)
  moreover have "definitions_of ''__MAYBE_REDIR'' helper_cleanup = []"
    by (simp add: helper_cleanup_def read_definitions)
  ultimately show ?thesis
    by (simp add: tccdefs_def definitions_of_append fragment_defines)
qed

subsection \<open>The variadic-argument access of 64-bit Windows\<close>

lemma between_powers_of_two:
  fixes n :: nat
  assumes "2 ^ a < n" and "n < 2 ^ Suc a"
  shows "n \<noteq> 2 ^ k"
proof (cases "k \<le> a")
  case True
  then have "(2::nat) ^ k \<le> 2 ^ a" by (rule power_increasing) simp
  with assms(1) show ?thesis by auto
next
  case False
  then have "Suc a \<le> k" by simp
  then have "(2::nat) ^ Suc a \<le> 2 ^ k" by (rule power_increasing) simp
  with assms(2) show ?thesis by auto
qed

lemma small_powers_of_two:
  fixes n :: nat
  assumes "0 < n" and "n \<le> 8"
  shows "(\<exists>k. n = 2 ^ k) \<longleftrightarrow> n \<in> {1, 2, 4, 8}"
proof
  assume "\<exists>k. n = 2 ^ k"
  then obtain k where k: "n = 2 ^ k" ..
  have "n \<noteq> 3" using between_powers_of_two [of 1 3 k] k by auto
  moreover have "n \<noteq> 5" using between_powers_of_two [of 2 5 k] k by auto
  moreover have "n \<noteq> 6" using between_powers_of_two [of 2 6 k] k by auto
  moreover have "n \<noteq> 7" using between_powers_of_two [of 2 7 k] k by auto
  ultimately show "n \<in> {1, 2, 4, 8}" using assms by auto
next
  assume "n \<in> {1, 2, 4, 8}"
  then consider "n = 2 ^ 0" | "n = 2 ^ 1" | "n = 2 ^ 2" | "n = 2 ^ 3" by auto
  then show "\<exists>k. n = 2 ^ k" by cases blast+
qed

lemma win64_by_reference_small:
  fixes sz :: "64 word"
  assumes "sz \<noteq> 0" and "sz \<le> 8"
  shows "win64_by_reference sz \<longleftrightarrow> unat sz \<notin> {1, 2, 4, 8}"
proof -
  define n where "n = unat sz"
  have sz: "sz = of_nat n" by (simp add: n_def)
  from assms have "n \<le> 8" and "n \<noteq> 0"
    by (simp_all add: n_def word_le_nat_alt unat_eq_0)
  then consider "n = 1" | "n = 2" | "n = 3" | "n = 4" | "n = 5" | "n = 6" | "n = 7" | "n = 8"
    by linarith
  then show ?thesis
    by cases (simp_all add: sz win64_by_reference_def)
qed

lemma win64_by_reference_iff:
  fixes sz :: "64 word"
  assumes "sz \<noteq> 0"
  shows "win64_by_reference sz \<longleftrightarrow> 8 < unat sz \<or> \<not> (\<exists>k. unat sz = 2 ^ k)"
proof (cases "sz \<le> 8")
  case True
  then have le: "unat sz \<le> 8" by (simp add: word_le_nat_alt)
  from assms have pos: "0 < unat sz" by (simp add: unat_gt_0)
  from win64_by_reference_small [OF assms True] small_powers_of_two [OF pos le] le
  show ?thesis by auto
next
  case False
  then have "8 < sz" by simp
  then have "8 < unat sz" by (simp add: word_less_nat_alt)
  with \<open>8 < sz\<close> show ?thesis by (simp add: win64_by_reference_def)
qed

lemma is_power_of_two_iff: "is_power_of_two n \<longleftrightarrow> (\<exists>k. n = 2 ^ k)"
proof
  assume "is_power_of_two n"
  then show "\<exists>k. n = 2 ^ k"
    by (auto simp: is_power_of_two_def list_ex_iff)
next
  assume "\<exists>k. n = 2 ^ k"
  then obtain k where k: "n = 2 ^ k" ..
  have "k < 2 ^ k" by (rule less_exp)
  with k have "k \<in> set [0..<Suc n]" by simp
  with k show "is_power_of_two n"
    unfolding is_power_of_two_def list_ex_iff by blast
qed

text \<open>A size of 0 passes the test of the macro as a power of two does.\<close>

lemma win64_zero_size: "\<not> win64_by_reference 0"
  by (simp add: win64_by_reference_def)

lemma win64_va_arg_result:
  "win64_va_arg load ap sz = ((if win64_by_reference sz then load ap else ap), ap + 8)"
  by (simp add: win64_va_arg_def)

lemma win64_va_list_text:
  assumes "TCC_TARGET_X86_64 c" and "TCC_TARGET_PE c"
  shows "''typedef char*__builtin_va_list;'' \<in> set (tccdefs c)"
    and "definitions_of ''__builtin_va_arg'' (tccdefs c) =
      [Function_like [''ap'', ''t'']
        ''((sizeof(t)>8||(sizeof(t)&(sizeof(t)-1)))?**(t**)((ap+=8)-8):*(t*)((ap+=8)-8))'']"
proof -
  from assms have "''typedef char*__builtin_va_list;'' \<in> set (va_list_defs c)"
    by (simp add: va_list_defs_def)
  then show "''typedef char*__builtin_va_list;'' \<in> set (tccdefs c)"
    by (simp add: tccdefs_def)
  from assms have "definitions_of ''__builtin_va_arg'' (va_list_defs c) =
      [Function_like [''ap'', ''t'']
        ''((sizeof(t)>8||(sizeof(t)&(sizeof(t)-1)))?**(t**)((ap+=8)-8):*(t*)((ap+=8)-8))'']"
    by (simp add: va_list_defs_def read_definitions)
  then show "definitions_of ''__builtin_va_arg'' (tccdefs c) =
      [Function_like [''ap'', ''t'']
        ''((sizeof(t)>8||(sizeof(t)&(sizeof(t)-1)))?**(t**)((ap+=8)-8):*(t*)((ap+=8)-8))'']"
    by (simp add: tccdefs_def definitions_of_append fragment_defines)
qed

subsection \<open>Names used before they are defined\<close>

text \<open>The scan depends on the set of the names seen so far, and finds less when it is larger.\<close>

lemma undefined_uses_seen:
  "set seen = set seen' \<Longrightarrow> undefined_uses seen ls = undefined_uses seen' ls"
proof (induction ls arbitrary: seen seen')
  case Nil
  then show ?case by simp
next
  case (Cons l ls)
  have "undefined_uses (line_defines l @ seen) ls = undefined_uses (line_defines l @ seen') ls"
    by (rule Cons.IH) (simp add: Cons.prems)
  with Cons.prems show ?case by simp
qed

lemma undefined_uses_more_seen:
  "set seen \<subseteq> set seen' \<Longrightarrow> set (undefined_uses seen' ls) \<subseteq> set (undefined_uses seen ls)"
proof (induction ls arbitrary: seen seen')
  case Nil
  then show ?case by simp
next
  case (Cons l ls)
  have "set (undefined_uses (line_defines l @ seen') ls)
      \<subseteq> set (undefined_uses (line_defines l @ seen) ls)"
    by (rule Cons.IH) (use Cons.prems in auto)
  with Cons.prems show ?case by auto
qed

lemma defined_names_Nil: "defined_names [] = []"
  by (simp add: defined_names_def)

lemma defined_names_Cons: "defined_names (l # ls) = line_defines l @ defined_names ls"
  by (simp add: defined_names_def)

lemma defined_names_append: "defined_names (xs @ ys) = defined_names xs @ defined_names ys"
  by (simp add: defined_names_def)

lemma undefined_uses_append:
  "set (undefined_uses seen (xs @ ys)) =
   set (undefined_uses seen xs) \<union> set (undefined_uses (defined_names xs @ seen) ys)"
proof (induction xs arbitrary: seen)
  case Nil
  then show ?case by (simp add: defined_names_Nil)
next
  case (Cons l xs)
  have "undefined_uses (defined_names xs @ line_defines l @ seen) ys
      = undefined_uses (defined_names (l # xs) @ seen) ys"
    by (rule undefined_uses_seen) (auto simp: defined_names_Cons)
  with Cons.IH [of "line_defines l @ seen"] show ?case by auto
qed

text \<open>
  The scan finds exactly the uses that no earlier line covers: a name is reported when
  some line uses it and neither the names given at the start nor the lines before that
  line define it.
\<close>

lemma undefined_uses_iff:
  "n \<in> set (undefined_uses seen ls) \<longleftrightarrow>
   (\<exists>pre l post. ls = pre @ l # post \<and> n \<in> set (line_uses l)
      \<and> n \<notin> set seen \<and> n \<notin> set (defined_names pre))"
proof (induction ls arbitrary: seen)
  case Nil
  then show ?case by simp
next
  case (Cons a ls)
  show ?case
  proof
    assume "n \<in> set (undefined_uses seen (a # ls))"
    then consider "n \<in> set (line_uses a)" "n \<notin> set seen"
      | "n \<in> set (undefined_uses (line_defines a @ seen) ls)" by auto
    then show "\<exists>pre l post. a # ls = pre @ l # post \<and> n \<in> set (line_uses l)
      \<and> n \<notin> set seen \<and> n \<notin> set (defined_names pre)"
    proof cases
      case 1
      then have "a # ls = [] @ a # ls \<and> n \<in> set (line_uses a)
          \<and> n \<notin> set seen \<and> n \<notin> set (defined_names [])"
        by (simp add: defined_names_Nil)
      then show ?thesis by blast
    next
      case 2
      with Cons.IH [of "line_defines a @ seen"] obtain pre l post
        where "ls = pre @ l # post" "n \<in> set (line_uses l)"
          "n \<notin> set (line_defines a @ seen)" "n \<notin> set (defined_names pre)" by blast
      then have "a # ls = (a # pre) @ l # post \<and> n \<in> set (line_uses l)
          \<and> n \<notin> set seen \<and> n \<notin> set (defined_names (a # pre))"
        by (simp add: defined_names_Cons)
      then show ?thesis by blast
    qed
  next
    assume "\<exists>pre l post. a # ls = pre @ l # post \<and> n \<in> set (line_uses l)
      \<and> n \<notin> set seen \<and> n \<notin> set (defined_names pre)"
    then obtain pre l post where s: "a # ls = pre @ l # post" and u: "n \<in> set (line_uses l)"
      and k: "n \<notin> set seen" and d: "n \<notin> set (defined_names pre)" by blast
    show "n \<in> set (undefined_uses seen (a # ls))"
    proof (cases pre)
      case Nil
      with s u k show ?thesis by simp
    next
      case (Cons b pre')
      with s have ab: "b = a" and ls: "ls = pre' @ l # post" by simp_all
      from d Cons ab have "n \<notin> set (line_defines a @ seen)" "n \<notin> set (defined_names pre')"
        using k by (simp_all add: defined_names_Cons)
      with Cons.IH [of "line_defines a @ seen"] ls u
      have "n \<in> set (undefined_uses (line_defines a @ seen) ls)" by blast
      then show ?thesis by simp
    qed
  qed
qed

lemmas read_names = line_uses_def line_defines_def typedef_name_def word_of_def read_line

lemma size_types_uses:
  "set (undefined_uses [] (size_types c)) \<subseteq>
   set [''unsigned'', ''long'', ''int'']"
  by (simp add: size_types_def read_names)

lemma int_limits_uses:
  "set (undefined_uses [''__SIZE_TYPE__'', ''__PTRDIFF_TYPE__''] (int_limits c)) \<subseteq>
   set []"
  by (simp add: int_limits_def read_names)

lemma wchar_types_uses:
  "set (undefined_uses [''__SIZE_TYPE__'', ''__PTRDIFF_TYPE__''] (wchar_types c)) \<subseteq>
   set [''unsigned'', ''short'', ''int'']"
  by (simp add: wchar_types_def read_names)

lemma stdc_macros_uses:
  "set (undefined_uses [''__SIZE_TYPE__'', ''__PTRDIFF_TYPE__''] (stdc_macros c)) \<subseteq>
   set []"
  by (simp add: stdc_macros_def read_names)

lemma os_identity_uses:
  "set (undefined_uses [''__SIZE_TYPE__'', ''__PTRDIFF_TYPE__''] (os_identity c)) \<subseteq>
   set [''__attribute__'', ''struct'', ''unsigned'', ''char'', ''_dummy'',
        ''__attribute'', ''aligned'', ''__FUNCTION__'']"
  by (simp add: os_identity_def read_names)

lemma intptr_types_uses:
  "set (undefined_uses [''__SIZE_TYPE__'', ''__PTRDIFF_TYPE__''] (intptr_types c)) \<subseteq>
   set [''unsigned'', ''int'']"
  by (simp add: intptr_types_def read_names)

lemma glibc_redirect_uses:
  "set (undefined_uses [''__SIZE_TYPE__'', ''__PTRDIFF_TYPE__''] (glibc_redirect c)) \<subseteq>
   set [''__asm__'', ''__THROW'']"
  by (simp add: glibc_redirect_def read_names)

lemma tcc_pp_begin_uses:
  "set (undefined_uses [''__SIZE_TYPE__'', ''__PTRDIFF_TYPE__''] (tcc_pp_begin)) \<subseteq>
   set []"
  by (simp add: tcc_pp_begin_def read_names)

lemma builtin_macros_uses:
  "set (undefined_uses [''__SIZE_TYPE__'', ''__PTRDIFF_TYPE__''] (builtin_macros c)) \<subseteq>
   set [''bzero'', ''sizeof'']"
  by (simp add: builtin_macros_def read_names)

lemma va_list_defs_uses:
  "set (undefined_uses [''__SIZE_TYPE__'', ''__PTRDIFF_TYPE__''] (va_list_defs c)) \<subseteq>
   set [''typedef'', ''struct'', ''unsigned'', ''gp_offset'', ''fp_offset'', ''union'',
        ''overflow_offset'', ''char'', ''overflow_arg_area'', ''reg_save_area'',
        ''void'', ''__va_arg'', ''ap'', ''int'', ''arg_type'', ''size'', ''align'',
        ''__builtin_frame_address'', ''__builtin_va_arg_types'', ''sizeof'',
        ''__alignof__'', ''c'', ''x'', ''__stack'', ''__gr_top'', ''__vr_top'',
        ''__gr_offs'', ''__vr_offs'', ''__riscv_xlen'', ''long'', ''va_list'']"
  by (simp add: va_list_defs_def read_names)

lemma alias_macros_uses:
  "set (undefined_uses [''__SIZE_TYPE__'', ''__PTRDIFF_TYPE__''] (alias_macros c)) \<subseteq>
   set [''__asm__'', ''__builtin_'']"
  by (simp add: alias_macros_def read_names)

lemma builtin_table_uses:
  "set (undefined_uses [''__SIZE_TYPE__'', ''__PTRDIFF_TYPE__'', ''__BOTH'', ''__BOUND'', ''__BUILTIN''] (builtin_table c)) \<subseteq>
   set [''void'', ''memcpy'', ''const'', ''memmove'', ''memset'', ''int'', ''memcmp'',
        ''strlen'', ''char'', ''strcpy'', ''strncpy'', ''strcmp'', ''strncmp'',
        ''strcat'', ''strncat'', ''strchr'', ''strrchr'', ''strdup'',
        ''__aeabi_memcpy'', ''__aeabi_memmove'', ''__aeabi_memmove4'',
        ''__aeabi_memmove8'', ''__aeabi_memset'', ''malloc'', ''realloc'', ''calloc'',
        ''memalign'', ''free'', ''alloca'', ''abort'', ''longjmp'', ''mmap'',
        ''munmap'']"
  by (simp add: builtin_table_def read_names)

lemma helper_cleanup_uses:
  "set (undefined_uses [''__SIZE_TYPE__'', ''__PTRDIFF_TYPE__'', ''__BOTH'', ''__BOUND'', ''__BUILTIN''] (helper_cleanup)) \<subseteq>
   set []"
  by (simp add: helper_cleanup_def read_names)

lemma tcc_pp_end_uses:
  "set (undefined_uses [''__SIZE_TYPE__'', ''__PTRDIFF_TYPE__'', ''__BOTH'', ''__BOUND'', ''__BUILTIN''] (tcc_pp_end)) \<subseteq>
   set []"
  by (simp add: tcc_pp_end_def read_names)

lemma names_disjoint: "set external_names \<inter> set header_names = {}"
  by (simp add: external_names_def header_names_def)

text \<open>The names the fragments define, whatever the target, are names of the list.\<close>

lemma line_defines_subset:
  "set (line_defines l) \<subseteq> set (touched_name l) \<union> set (typedef_name l)"
  by (simp add: line_defines_def touched_name_def split: directive.splits)

lemma typedef_names_Nil: "typedef_names [] = []"
  by (simp add: typedef_names_def)

lemma typedef_names_Cons: "typedef_names (l # ls) = typedef_name l @ typedef_names ls"
  by (simp add: typedef_names_def)

lemma typedef_names_append: "typedef_names (xs @ ys) = typedef_names xs @ typedef_names ys"
  by (simp add: typedef_names_def)

lemma defined_names_subset:
  "set (defined_names ls) \<subseteq> set (touched_names ls) \<union> set (typedef_names ls)"
proof (induction ls)
  case Nil
  then show ?case by (simp add: defined_names_Nil typedef_names_Nil)
next
  case (Cons l ls)
  with line_defines_subset [of l] show ?case
    by (auto simp: defined_names_Cons touched_names_Cons typedef_names_Cons)
qed

lemma header_names_bound:
  assumes "set (touched_names ls) \<subseteq> set ts" and "set (typedef_names ls) \<subseteq> set ds"
    and "set ts \<subseteq> set header_names" and "set ds \<subseteq> set header_names"
  shows "set (defined_names ls) \<subseteq> set header_names"
  using defined_names_subset [of ls] assms by blast

lemmas read_typedef = typedef_names_Nil typedef_names_Cons typedef_names_append
  typedef_name_def word_of_def is_ident_char_def is_digit_def

lemma size_types_typedefs: "set (typedef_names (size_types c)) \<subseteq> set []"
  by (simp add: size_types_def read_typedef)

lemma int_limits_typedefs: "set (typedef_names (int_limits c)) \<subseteq> set []"
  by (simp add: int_limits_def read_typedef)

lemma wchar_types_typedefs: "set (typedef_names (wchar_types c)) \<subseteq> set []"
  by (simp add: wchar_types_def read_typedef)

lemma stdc_macros_typedefs: "set (typedef_names (stdc_macros c)) \<subseteq> set []"
  by (simp add: stdc_macros_def read_typedef)

lemma os_identity_typedefs: "set (typedef_names (os_identity c)) \<subseteq> set []"
  by (simp add: os_identity_def read_typedef)

lemma intptr_types_typedefs: "set (typedef_names (intptr_types c)) \<subseteq> set []"
  by (simp add: intptr_types_def read_typedef)

lemma glibc_redirect_typedefs: "set (typedef_names (glibc_redirect c)) \<subseteq> set []"
  by (simp add: glibc_redirect_def read_typedef)

lemma tcc_pp_begin_typedefs: "set (typedef_names (tcc_pp_begin)) \<subseteq> set []"
  by (simp add: tcc_pp_begin_def read_typedef)

lemma builtin_macros_typedefs: "set (typedef_names (builtin_macros c)) \<subseteq> set []"
  by (simp add: builtin_macros_def read_typedef)

lemma va_list_defs_typedefs:
  "set (typedef_names (va_list_defs c)) \<subseteq> set [''__builtin_va_list'']"
  by (simp add: va_list_defs_def read_typedef)

lemma alias_macros_typedefs: "set (typedef_names (alias_macros c)) \<subseteq> set []"
  by (simp add: alias_macros_def read_typedef)

lemma builtin_table_typedefs: "set (typedef_names (builtin_table c)) \<subseteq> set []"
  by (simp add: builtin_table_def read_typedef)

lemma helper_cleanup_typedefs: "set (typedef_names (helper_cleanup)) \<subseteq> set []"
  by (simp add: helper_cleanup_def read_typedef)

lemma tcc_pp_end_typedefs: "set (typedef_names (tcc_pp_end)) \<subseteq> set []"
  by (simp add: tcc_pp_end_def read_typedef)

lemma size_types_header_names: "set (defined_names (size_types c)) \<subseteq> set header_names"
  by (rule header_names_bound [OF size_types_touched size_types_typedefs]) (simp_all add: header_names_def)

lemma int_limits_header_names: "set (defined_names (int_limits c)) \<subseteq> set header_names"
  by (rule header_names_bound [OF int_limits_touched int_limits_typedefs]) (simp_all add: header_names_def)

lemma wchar_types_header_names: "set (defined_names (wchar_types c)) \<subseteq> set header_names"
  by (rule header_names_bound [OF wchar_types_touched wchar_types_typedefs]) (simp_all add: header_names_def)

lemma stdc_macros_header_names: "set (defined_names (stdc_macros c)) \<subseteq> set header_names"
  by (rule header_names_bound [OF stdc_macros_touched stdc_macros_typedefs]) (simp_all add: header_names_def)

lemma os_identity_header_names: "set (defined_names (os_identity c)) \<subseteq> set header_names"
  by (rule header_names_bound [OF os_identity_touched os_identity_typedefs]) (simp_all add: header_names_def)

lemma intptr_types_header_names: "set (defined_names (intptr_types c)) \<subseteq> set header_names"
  by (rule header_names_bound [OF intptr_types_touched intptr_types_typedefs]) (simp_all add: header_names_def)

lemma glibc_redirect_header_names: "set (defined_names (glibc_redirect c)) \<subseteq> set header_names"
  by (rule header_names_bound [OF glibc_redirect_touched glibc_redirect_typedefs]) (simp_all add: header_names_def)

lemma tcc_pp_begin_header_names: "set (defined_names (tcc_pp_begin)) \<subseteq> set header_names"
  by (rule header_names_bound [OF tcc_pp_begin_touched tcc_pp_begin_typedefs]) (simp_all add: header_names_def)

lemma builtin_macros_header_names: "set (defined_names (builtin_macros c)) \<subseteq> set header_names"
  by (rule header_names_bound [OF builtin_macros_touched builtin_macros_typedefs]) (simp_all add: header_names_def)

lemma va_list_defs_header_names: "set (defined_names (va_list_defs c)) \<subseteq> set header_names"
  by (rule header_names_bound [OF va_list_defs_touched va_list_defs_typedefs]) (simp_all add: header_names_def)

lemma alias_macros_header_names: "set (defined_names (alias_macros c)) \<subseteq> set header_names"
  by (rule header_names_bound [OF alias_macros_touched alias_macros_typedefs]) (simp_all add: header_names_def)

lemma builtin_table_header_names: "set (defined_names (builtin_table c)) \<subseteq> set header_names"
  by (rule header_names_bound [OF builtin_table_touched builtin_table_typedefs]) (simp_all add: header_names_def)

lemma helper_cleanup_header_names: "set (defined_names (helper_cleanup)) \<subseteq> set header_names"
  by (rule header_names_bound [OF helper_cleanup_touched helper_cleanup_typedefs]) (simp_all add: header_names_def)

lemma tcc_pp_end_header_names: "set (defined_names (tcc_pp_end)) \<subseteq> set header_names"
  by (rule header_names_bound [OF tcc_pp_end_touched tcc_pp_end_typedefs]) (simp_all add: header_names_def)

lemmas fragment_header_names =
  size_types_header_names int_limits_header_names wchar_types_header_names
  stdc_macros_header_names os_identity_header_names intptr_types_header_names
  glibc_redirect_header_names tcc_pp_begin_header_names builtin_macros_header_names
  va_list_defs_header_names alias_macros_header_names builtin_table_header_names
  helper_cleanup_header_names tcc_pp_end_header_names


lemma tccdefs_header_names: "set (defined_names (tccdefs c)) \<subseteq> set header_names"
  by (simp add: tccdefs_def defined_names_append fragment_header_names)

text \<open>The names the later fragments rely on are defined by every target.\<close>

lemma size_types_defined:
  "''__SIZE_TYPE__'' \<in> set (defined_names (size_types c))"
  "''__PTRDIFF_TYPE__'' \<in> set (defined_names (size_types c))"
  by (simp_all add: size_types_def defined_names_Cons defined_names_append line_defines_def
      read_line)

lemma alias_macros_defined:
  "''__BOTH'' \<in> set (defined_names (alias_macros c))"
  "''__BOUND'' \<in> set (defined_names (alias_macros c))"
  "''__BUILTIN'' \<in> set (defined_names (alias_macros c))"
  by (simp_all add: alias_macros_def defined_names_Cons defined_names_append line_defines_def
      read_line)

text \<open>What each fragment uses without defining it is a name of the other list.\<close>

lemma size_types_external:
  "set (undefined_uses [] (size_types c)) \<subseteq> set external_names"
  using size_types_uses [of c] by (rule subset_trans) (simp add: external_names_def)

lemma int_limits_external:
  "set (undefined_uses [''__SIZE_TYPE__'', ''__PTRDIFF_TYPE__''] (int_limits c)) \<subseteq> set external_names"
  using int_limits_uses [of c] by (rule subset_trans) (simp add: external_names_def)

lemma wchar_types_external:
  "set (undefined_uses [''__SIZE_TYPE__'', ''__PTRDIFF_TYPE__''] (wchar_types c)) \<subseteq> set external_names"
  using wchar_types_uses [of c] by (rule subset_trans) (simp add: external_names_def)

lemma stdc_macros_external:
  "set (undefined_uses [''__SIZE_TYPE__'', ''__PTRDIFF_TYPE__''] (stdc_macros c)) \<subseteq> set external_names"
  using stdc_macros_uses [of c] by (rule subset_trans) (simp add: external_names_def)

lemma os_identity_external:
  "set (undefined_uses [''__SIZE_TYPE__'', ''__PTRDIFF_TYPE__''] (os_identity c)) \<subseteq> set external_names"
  using os_identity_uses [of c] by (rule subset_trans) (simp add: external_names_def)

lemma intptr_types_external:
  "set (undefined_uses [''__SIZE_TYPE__'', ''__PTRDIFF_TYPE__''] (intptr_types c)) \<subseteq> set external_names"
  using intptr_types_uses [of c] by (rule subset_trans) (simp add: external_names_def)

lemma glibc_redirect_external:
  "set (undefined_uses [''__SIZE_TYPE__'', ''__PTRDIFF_TYPE__''] (glibc_redirect c)) \<subseteq> set external_names"
  using glibc_redirect_uses [of c] by (rule subset_trans) (simp add: external_names_def)

lemma tcc_pp_begin_external:
  "set (undefined_uses [''__SIZE_TYPE__'', ''__PTRDIFF_TYPE__''] (tcc_pp_begin)) \<subseteq> set external_names"
  using tcc_pp_begin_uses by (rule subset_trans) (simp add: external_names_def)

lemma builtin_macros_external:
  "set (undefined_uses [''__SIZE_TYPE__'', ''__PTRDIFF_TYPE__''] (builtin_macros c)) \<subseteq> set external_names"
  using builtin_macros_uses [of c] by (rule subset_trans) (simp add: external_names_def)

lemma va_list_defs_external:
  "set (undefined_uses [''__SIZE_TYPE__'', ''__PTRDIFF_TYPE__''] (va_list_defs c)) \<subseteq> set external_names"
  using va_list_defs_uses [of c] by (rule subset_trans) (simp add: external_names_def)

lemma alias_macros_external:
  "set (undefined_uses [''__SIZE_TYPE__'', ''__PTRDIFF_TYPE__''] (alias_macros c)) \<subseteq> set external_names"
  using alias_macros_uses [of c] by (rule subset_trans) (simp add: external_names_def)

lemma builtin_table_external:
  "set (undefined_uses [''__SIZE_TYPE__'', ''__PTRDIFF_TYPE__'', ''__BOTH'', ''__BOUND'', ''__BUILTIN''] (builtin_table c)) \<subseteq> set external_names"
  using builtin_table_uses [of c] by (rule subset_trans) (simp add: external_names_def)

lemma helper_cleanup_external:
  "set (undefined_uses [''__SIZE_TYPE__'', ''__PTRDIFF_TYPE__'', ''__BOTH'', ''__BOUND'', ''__BUILTIN''] (helper_cleanup)) \<subseteq> set external_names"
  using helper_cleanup_uses by (rule subset_trans) (simp add: external_names_def)

lemma tcc_pp_end_external:
  "set (undefined_uses [''__SIZE_TYPE__'', ''__PTRDIFF_TYPE__'', ''__BOTH'', ''__BOUND'', ''__BUILTIN''] (tcc_pp_end)) \<subseteq> set external_names"
  using tcc_pp_end_uses by (rule subset_trans) (simp add: external_names_def)


lemma undefined_uses_step:
  assumes "set (undefined_uses K xs) \<subseteq> E"
    and "set K \<subseteq> set seen"
    and "set (undefined_uses (defined_names xs @ seen) ys) \<subseteq> E"
  shows "set (undefined_uses seen (xs @ ys)) \<subseteq> E"
  using assms undefined_uses_more_seen [of K seen xs]
  by (auto simp: undefined_uses_append)

lemma undefined_uses_last:
  assumes "set (undefined_uses K xs) \<subseteq> E" and "set K \<subseteq> set seen"
  shows "set (undefined_uses seen xs) \<subseteq> E"
  using assms undefined_uses_more_seen [of K seen xs] by auto

lemma tccdefs_external: "set (undefined_uses [] (tccdefs c)) \<subseteq> set external_names"
  unfolding tccdefs_def
  apply (rule undefined_uses_step [OF size_types_external], simp)
  apply (rule undefined_uses_step [OF int_limits_external], simp add: size_types_defined)
  apply (rule undefined_uses_step [OF wchar_types_external], simp add: size_types_defined)
  apply (rule undefined_uses_step [OF stdc_macros_external], simp add: size_types_defined)
  apply (rule undefined_uses_step [OF os_identity_external], simp add: size_types_defined)
  apply (rule undefined_uses_step [OF intptr_types_external], simp add: size_types_defined)
  apply (rule undefined_uses_step [OF glibc_redirect_external], simp add: size_types_defined)
  apply (rule undefined_uses_step [OF tcc_pp_begin_external], simp add: size_types_defined)
  apply (rule undefined_uses_step [OF builtin_macros_external], simp add: size_types_defined)
  apply (rule undefined_uses_step [OF va_list_defs_external], simp add: size_types_defined)
  apply (rule undefined_uses_step [OF alias_macros_external], simp add: size_types_defined)
  apply (rule undefined_uses_step [OF builtin_table_external],
      simp add: size_types_defined alias_macros_defined)
  apply (rule undefined_uses_step [OF helper_cleanup_external],
      simp add: size_types_defined alias_macros_defined)
  apply (rule undefined_uses_last [OF tcc_pp_end_external],
      simp add: size_types_defined alias_macros_defined)
  done

section \<open>The claims\<close>

subsection \<open>C1: one definition each for the size, pointer-difference and pointer-integer types\<close>

text \<open>
  C1, as stated, fails: for NetBSD on x86\_64 (pointers and \<^verbatim>\<open>long\<close> of 8 bytes) no line
  of the emitted text defines \<^verbatim>\<open>__INTPTR_TYPE__\<close>. Lines 140 to 143 leave the
  definition out under \<^verbatim>\<open>#ifndef TARGETOS_NetBSD\<close>.
\<close>

theorem intptr_type_undefined_on_netbsd:
  "definitions_of ''__INTPTR_TYPE__'' (tccdefs netbsd_x86_64) = []"
  by (simp add: intptr_type_definitions targets)

text \<open>
  C1, amended: for every target configuration the emitted text has exactly one
  \<^verbatim>\<open>#define\<close> of \<^verbatim>\<open>__SIZE_TYPE__\<close> and exactly one of \<^verbatim>\<open>__PTRDIFF_TYPE__\<close>; it has
  exactly one \<^verbatim>\<open>#define\<close> of \<^verbatim>\<open>__INTPTR_TYPE__\<close> when the target is not NetBSD and none
  when it is.
\<close>

theorem type_macros_defined_once:
  "length (definitions_of ''__SIZE_TYPE__'' (tccdefs c)) = 1
   \<and> length (definitions_of ''__PTRDIFF_TYPE__'' (tccdefs c)) = 1
   \<and> length (definitions_of ''__INTPTR_TYPE__'' (tccdefs c)) =
       (if TARGETOS_NetBSD c then 0 else 1)"
  by (simp add: size_type_definitions ptrdiff_type_definitions intptr_type_definitions)

theorem type_macros_defined_once_witness:
  "length (definitions_of ''__SIZE_TYPE__'' (tccdefs linux_x86_64)) = 1
   \<and> length (definitions_of ''__PTRDIFF_TYPE__'' (tccdefs linux_x86_64)) = 1
   \<and> length (definitions_of ''__INTPTR_TYPE__'' (tccdefs linux_x86_64)) = 1"
  using type_macros_defined_once [of linux_x86_64] by (simp add: targets)

subsection \<open>C2: no forward references\<close>

text \<open>
  C2, as stated, fails: for Linux on 64-bit RISC-V the definition of
  \<^verbatim>\<open>__builtin_va_arg\<close> (line 221) uses the type name \<^verbatim>\<open>va_list\<close> and the definition of
  \<^verbatim>\<open>__REDIRECT_NTH\<close> (line 149) uses the macro \<^verbatim>\<open>__THROW\<close>, and no line of the emitted
  text defines either.
\<close>

theorem names_used_but_never_defined:
  "''#define __builtin_va_arg(ap,type) (*(sizeof(type)>(2*__va_reg_size)?*(type**)((ap+=__va_reg_size)-__va_reg_size):(ap=(va_list)(_tcc_align(ap,type)+(sizeof(type)+__va_reg_size-1)&-__va_reg_size),(type*)(ap-((sizeof(type)+__va_reg_size-1)&-__va_reg_size)))))''
     \<in> set (tccdefs linux_riscv64)
   \<and> ''va_list'' \<in> set (line_uses
     ''#define __builtin_va_arg(ap,type) (*(sizeof(type)>(2*__va_reg_size)?*(type**)((ap+=__va_reg_size)-__va_reg_size):(ap=(va_list)(_tcc_align(ap,type)+(sizeof(type)+__va_reg_size-1)&-__va_reg_size),(type*)(ap-((sizeof(type)+__va_reg_size-1)&-__va_reg_size)))))'')
   \<and> ''va_list'' \<notin> set (defined_names (tccdefs linux_riscv64))
   \<and> ''#define __REDIRECT_NTH(name,proto,alias) name proto __asm__(#alias)__THROW''
     \<in> set (tccdefs linux_riscv64)
   \<and> ''__THROW'' \<in> set (line_uses
     ''#define __REDIRECT_NTH(name,proto,alias) name proto __asm__(#alias)__THROW'')
   \<and> ''__THROW'' \<notin> set (defined_names (tccdefs linux_riscv64))"
proof -
  have "''#define __builtin_va_arg(ap,type) (*(sizeof(type)>(2*__va_reg_size)?*(type**)((ap+=__va_reg_size)-__va_reg_size):(ap=(va_list)(_tcc_align(ap,type)+(sizeof(type)+__va_reg_size-1)&-__va_reg_size),(type*)(ap-((sizeof(type)+__va_reg_size-1)&-__va_reg_size)))))''
     \<in> set (va_list_defs linux_riscv64)"
    by (simp add: va_list_defs_def targets)
  then have 1: "''#define __builtin_va_arg(ap,type) (*(sizeof(type)>(2*__va_reg_size)?*(type**)((ap+=__va_reg_size)-__va_reg_size):(ap=(va_list)(_tcc_align(ap,type)+(sizeof(type)+__va_reg_size-1)&-__va_reg_size),(type*)(ap-((sizeof(type)+__va_reg_size-1)&-__va_reg_size)))))''
     \<in> set (tccdefs linux_riscv64)"
    by (simp add: tccdefs_def)
  have 2: "''va_list'' \<in> set (line_uses
     ''#define __builtin_va_arg(ap,type) (*(sizeof(type)>(2*__va_reg_size)?*(type**)((ap+=__va_reg_size)-__va_reg_size):(ap=(va_list)(_tcc_align(ap,type)+(sizeof(type)+__va_reg_size-1)&-__va_reg_size),(type*)(ap-((sizeof(type)+__va_reg_size-1)&-__va_reg_size)))))'')"
    by (simp add: read_names)
  have "''va_list'' \<notin> set header_names"
    by (simp add: header_names_def)
  with tccdefs_header_names [of linux_riscv64]
  have 3: "''va_list'' \<notin> set (defined_names (tccdefs linux_riscv64))" by blast
  have "''#define __REDIRECT_NTH(name,proto,alias) name proto __asm__(#alias)__THROW''
     \<in> set (glibc_redirect linux_riscv64)"
    by (simp add: glibc_redirect_def targets)
  then have 4: "''#define __REDIRECT_NTH(name,proto,alias) name proto __asm__(#alias)__THROW''
     \<in> set (tccdefs linux_riscv64)"
    by (simp add: tccdefs_def)
  have 5: "''__THROW'' \<in> set (line_uses
     ''#define __REDIRECT_NTH(name,proto,alias) name proto __asm__(#alias)__THROW'')"
    by (simp add: read_names)
  have "''__THROW'' \<notin> set header_names"
    by (simp add: header_names_def)
  with tccdefs_header_names [of linux_riscv64]
  have 6: "''__THROW'' \<notin> set (defined_names (tccdefs linux_riscv64))" by blast
  from 1 2 3 4 5 6 show ?thesis by (intro conjI)
qed

text \<open>
  C2, amended: for every target configuration, scanning the emitted text from top to
  bottom, whenever a definition or declaration uses a name that some line of the same
  text defines (by \<^verbatim>\<open>#define\<close> or by a typedef), a line before it defines that name.
  The statement is about the names the text defines; it says nothing about a name that
  no line of the text defines.
\<close>

theorem no_forward_references:
  assumes "tccdefs c = pre @ l # post"
    and "n \<in> set (line_uses l)"
    and "n \<in> set (defined_names (tccdefs c))"
  shows "n \<in> set (defined_names pre)"
proof (rule ccontr)
  assume "n \<notin> set (defined_names pre)"
  with assms(1,2) have "n \<in> set (undefined_uses [] (tccdefs c))"
    unfolding undefined_uses_iff by auto
  with tccdefs_external have "n \<in> set external_names" by blast
  moreover from assms(3) tccdefs_header_names have "n \<in> set header_names" by blast
  ultimately show False using names_disjoint by blast
qed


theorem no_forward_references_witness:
  "tccdefs linux_x86_64 =
     (size_types linux_x86_64 @ int_limits linux_x86_64 @ wchar_types linux_x86_64
      @ stdc_macros linux_x86_64 @ os_identity linux_x86_64
      @ [''#define __UINTPTR_TYPE__ unsigned __PTRDIFF_TYPE__''])
     @ ''#define __INTPTR_TYPE__ __PTRDIFF_TYPE__''
     # ([''#define __INT32_TYPE__ int''] @ glibc_redirect linux_x86_64 @ tcc_pp_begin
        @ builtin_macros linux_x86_64 @ va_list_defs linux_x86_64 @ alias_macros linux_x86_64
        @ builtin_table linux_x86_64 @ helper_cleanup @ tcc_pp_end)
   \<and> ''__PTRDIFF_TYPE__'' \<in> set (line_uses ''#define __INTPTR_TYPE__ __PTRDIFF_TYPE__'')
   \<and> ''__PTRDIFF_TYPE__'' \<in> set (defined_names (tccdefs linux_x86_64))
   \<and> ''__PTRDIFF_TYPE__'' \<in> set (defined_names
        (size_types linux_x86_64 @ int_limits linux_x86_64 @ wchar_types linux_x86_64
         @ stdc_macros linux_x86_64 @ os_identity linux_x86_64
         @ [''#define __UINTPTR_TYPE__ unsigned __PTRDIFF_TYPE__'']))"
proof -
  have "\<not> TARGETOS_NetBSD linux_x86_64"
    by (simp add: targets)
  then have a: "tccdefs linux_x86_64 =
     (size_types linux_x86_64 @ int_limits linux_x86_64 @ wchar_types linux_x86_64
      @ stdc_macros linux_x86_64 @ os_identity linux_x86_64
      @ [''#define __UINTPTR_TYPE__ unsigned __PTRDIFF_TYPE__''])
     @ ''#define __INTPTR_TYPE__ __PTRDIFF_TYPE__''
     # ([''#define __INT32_TYPE__ int''] @ glibc_redirect linux_x86_64 @ tcc_pp_begin
        @ builtin_macros linux_x86_64 @ va_list_defs linux_x86_64 @ alias_macros linux_x86_64
        @ builtin_table linux_x86_64 @ helper_cleanup @ tcc_pp_end)"
    unfolding tccdefs_def intptr_types_def
    by (simp only: simp_thms if_True append_assoc append.simps)
  have b: "''__PTRDIFF_TYPE__'' \<in> set (line_uses ''#define __INTPTR_TYPE__ __PTRDIFF_TYPE__'')"
    by (simp add: read_names)
  have c: "''__PTRDIFF_TYPE__'' \<in> set (defined_names (tccdefs linux_x86_64))"
    by (simp add: tccdefs_def defined_names_append size_types_defined)
  from no_forward_references [OF a b c] a b c show ?thesis
    by (intro conjI)
qed

subsection \<open>C3: the decision table of the fundamental types\<close>

text \<open>
  C3: the first test that holds decides. With pointers of 4 bytes \<^verbatim>\<open>__SIZE_TYPE__\<close> is
  \<^verbatim>\<open>unsigned long\<close> on OpenBSD and \<^verbatim>\<open>unsigned int\<close> elsewhere, \<^verbatim>\<open>__PTRDIFF_TYPE__\<close> is
  \<^verbatim>\<open>long\<close> and \<^verbatim>\<open>int\<close> accordingly, \<^verbatim>\<open>__ILP32__\<close> is defined and \<^verbatim>\<open>__INT64_TYPE__\<close> is
  \<^verbatim>\<open>long long\<close>; otherwise, with a \<^verbatim>\<open>long\<close> of 4 bytes, \<^verbatim>\<open>__SIZE_TYPE__\<close> is
  \<^verbatim>\<open>unsigned long long\<close> and \<^verbatim>\<open>__LLP64__\<close> is defined; otherwise \<^verbatim>\<open>__SIZE_TYPE__\<close> is
  \<^verbatim>\<open>unsigned long\<close> and \<^verbatim>\<open>__LP64__\<close> is defined. Each of these is the only definition
  of its name in the emitted text, and exactly one of \<^verbatim>\<open>__ILP32__\<close>, \<^verbatim>\<open>__LLP64__\<close> and
  \<^verbatim>\<open>__LP64__\<close> is defined, whatever the configuration.
\<close>

theorem fundamental_types_decision_table:
  "definitions_of ''__SIZE_TYPE__'' (tccdefs c) =
     [Object_like
       (if PTR_SIZE c = 4 then (if TARGETOS_OpenBSD c then ''unsigned long'' else ''unsigned int'')
        else if LONG_SIZE c = 4 then ''unsigned long long''
        else ''unsigned long'')]
   \<and> definitions_of ''__PTRDIFF_TYPE__'' (tccdefs c) =
     [Object_like
       (if PTR_SIZE c = 4 then (if TARGETOS_OpenBSD c then ''long'' else ''int'')
        else if LONG_SIZE c = 4 then ''long long''
        else ''long'')]
   \<and> definitions_of ''__ILP32__'' (tccdefs c) =
       (if PTR_SIZE c = 4 then [Object_like ''1''] else [])
   \<and> definitions_of ''__LLP64__'' (tccdefs c) =
       (if PTR_SIZE c \<noteq> 4 \<and> LONG_SIZE c = 4 then [Object_like ''1''] else [])
   \<and> definitions_of ''__LP64__'' (tccdefs c) =
       (if PTR_SIZE c \<noteq> 4 \<and> LONG_SIZE c \<noteq> 4 then [Object_like ''1''] else [])
   \<and> (if PTR_SIZE c = 4
       then definitions_of ''__INT64_TYPE__'' (tccdefs c) = [Object_like ''long long'']
       else True)
   \<and> length (filter (\<lambda>n. definitions_of n (tccdefs c) \<noteq> [])
               [''__ILP32__'', ''__LLP64__'', ''__LP64__'']) = 1"
  by (simp add: size_type_definitions ptrdiff_type_definitions int64_type_definitions
      ilp32_definitions llp64_definitions lp64_definitions)

theorem fundamental_types_decision_table_witness:
  "definitions_of ''__SIZE_TYPE__'' (tccdefs openbsd_i386) = [Object_like ''unsigned long'']
   \<and> definitions_of ''__PTRDIFF_TYPE__'' (tccdefs openbsd_i386) = [Object_like ''long'']
   \<and> definitions_of ''__ILP32__'' (tccdefs openbsd_i386) = [Object_like ''1'']
   \<and> definitions_of ''__INT64_TYPE__'' (tccdefs openbsd_i386) = [Object_like ''long long'']
   \<and> definitions_of ''__SIZE_TYPE__'' (tccdefs win64) = [Object_like ''unsigned long long'']
   \<and> definitions_of ''__LLP64__'' (tccdefs win64) = [Object_like ''1'']
   \<and> definitions_of ''__SIZE_TYPE__'' (tccdefs linux_x86_64) = [Object_like ''unsigned long'']
   \<and> definitions_of ''__LP64__'' (tccdefs linux_x86_64) = [Object_like ''1'']
   \<and> definitions_of ''__ILP32__'' (tccdefs linux_x86_64) = []
   \<and> definitions_of ''__LLP64__'' (tccdefs linux_x86_64) = []"
  using fundamental_types_decision_table [of openbsd_i386]
    fundamental_types_decision_table [of win64]
    fundamental_types_decision_table [of linux_x86_64]
  by (simp add: targets)

subsection \<open>C4: 64-bit targets with a long of 8 bytes\<close>

text \<open>
  C4: with pointers and \<^verbatim>\<open>long\<close> of 8 bytes the emitted text defines \<^verbatim>\<open>__LP64__\<close>,
  defines \<^verbatim>\<open>__SIZE_TYPE__\<close> as \<^verbatim>\<open>unsigned long\<close>, and defines \<^verbatim>\<open>__INT64_TYPE__\<close> as
  \<^verbatim>\<open>long\<close> exactly when the target is Linux and as \<^verbatim>\<open>long long\<close> otherwise.
\<close>

theorem lp64_types:
  assumes "PTR_SIZE c = 8" and "LONG_SIZE c = 8"
  shows "definitions_of ''__LP64__'' (tccdefs c) = [Object_like ''1'']
   \<and> definitions_of ''__SIZE_TYPE__'' (tccdefs c) = [Object_like ''unsigned long'']
   \<and> definitions_of ''__INT64_TYPE__'' (tccdefs c) =
       [Object_like (if TARGETOS_Linux c then ''long'' else ''long long'')]"
  using assms
  by (simp add: size_type_definitions int64_type_definitions lp64_definitions)

theorem lp64_types_witness:
  "PTR_SIZE linux_x86_64 = 8 \<and> LONG_SIZE linux_x86_64 = 8
   \<and> definitions_of ''__LP64__'' (tccdefs linux_x86_64) = [Object_like ''1'']
   \<and> definitions_of ''__SIZE_TYPE__'' (tccdefs linux_x86_64) = [Object_like ''unsigned long'']
   \<and> definitions_of ''__INT64_TYPE__'' (tccdefs linux_x86_64) = [Object_like ''long'']
   \<and> PTR_SIZE freebsd_x86_64 = 8 \<and> LONG_SIZE freebsd_x86_64 = 8
   \<and> definitions_of ''__INT64_TYPE__'' (tccdefs freebsd_x86_64) = [Object_like ''long long'']"
proof -
  have l: "PTR_SIZE linux_x86_64 = 8" "LONG_SIZE linux_x86_64 = 8"
    and f: "PTR_SIZE freebsd_x86_64 = 8" "LONG_SIZE freebsd_x86_64 = 8"
    by (simp_all add: targets)
  from lp64_types [OF l] lp64_types [OF f] l f show ?thesis
    by (simp add: targets)
qed

subsection \<open>C5: the declarations of malloc\<close>

text \<open>
  C5, as stated, fails: for Linux on x86\_64, which is not PE, with bounds checking
  enabled, the table declares \<^verbatim>\<open>malloc\<close> once, under the internal name
  \<^verbatim>\<open>__builtin_malloc\<close> and bound to the plain symbol \<^verbatim>\<open>malloc\<close>. Lines 278 to 282 make
  \<^verbatim>\<open>__MAYBE_REDIR\<close> stand for \<^verbatim>\<open>__BUILTIN\<close> on Linux and Mach-O.
\<close>

theorem malloc_not_redirected_on_linux:
  "declarations_of ''malloc'' linux_x86_64 bounds_on =
     [\<lparr>decl_type = ''void*'', decl_name = ''__builtin_malloc'',
       decl_params = ''(__SIZE_TYPE__)'', decl_symbol = ''malloc''\<rparr>]"
  by (simp add: malloc_declarations targets bounds_on_def RENAME_def)

text \<open>
  C5, amended: on an x86\_64 target that is not PE, when the table is read
  (\<^verbatim>\<open>__TCC_PP__\<close> not defined): if the target is neither Linux nor Mach-O then, with
  bounds checking enabled, \<^verbatim>\<open>malloc\<close> is declared twice, as \<^verbatim>\<open>__builtin_malloc\<close> and
  as \<^verbatim>\<open>malloc\<close>, both bound to the symbol \<^verbatim>\<open>__bound_malloc\<close>, and with bounds checking
  disabled it is declared once, as \<^verbatim>\<open>__builtin_malloc\<close> bound to the symbol
  \<^verbatim>\<open>malloc\<close>; if the target is Linux or Mach-O it is declared once, as
  \<^verbatim>\<open>__builtin_malloc\<close> bound to \<^verbatim>\<open>malloc\<close>, whether bounds checking is enabled or not.
  (The symbol has an underscore in front when \<^verbatim>\<open>__leading_underscore\<close> is defined.)
\<close>

theorem malloc_declarations_x86_64:
  assumes "TCC_TARGET_X86_64 c" and "\<not> TCC_TARGET_PE c" and "\<not> TCC_PP opt"
  shows "declarations_of ''malloc'' c opt =
    (if TARGETOS_Linux c \<or> TCC_TARGET_MACHO c then
       [\<lparr>decl_type = ''void*'', decl_name = ''__builtin_malloc'',
         decl_params = ''(__SIZE_TYPE__)'', decl_symbol = RENAME opt ''malloc''\<rparr>]
     else if BOUNDS_CHECKING_ON opt then
       [\<lparr>decl_type = ''void*'', decl_name = ''__builtin_malloc'',
         decl_params = ''(__SIZE_TYPE__)'', decl_symbol = RENAME opt ''__bound_malloc''\<rparr>,
        \<lparr>decl_type = ''void*'', decl_name = ''malloc'',
         decl_params = ''(__SIZE_TYPE__)'', decl_symbol = RENAME opt ''__bound_malloc''\<rparr>]
     else
       [\<lparr>decl_type = ''void*'', decl_name = ''__builtin_malloc'',
         decl_params = ''(__SIZE_TYPE__)'', decl_symbol = RENAME opt ''malloc''\<rparr>])
   \<and> definitions_of ''__MAYBE_REDIR'' (tccdefs c) =
     [Object_like (if TARGETOS_Linux c \<or> TCC_TARGET_MACHO c then ''__BUILTIN'' else ''__BOTH'')]"
  using assms by (simp add: malloc_declarations maybe_redir_definitions)

theorem malloc_declarations_x86_64_witness:
  "TCC_TARGET_X86_64 freebsd_x86_64 \<and> \<not> TCC_TARGET_PE freebsd_x86_64
   \<and> \<not> TCC_PP bounds_on \<and> \<not> TCC_PP bounds_off
   \<and> declarations_of ''malloc'' freebsd_x86_64 bounds_on =
       [\<lparr>decl_type = ''void*'', decl_name = ''__builtin_malloc'',
         decl_params = ''(__SIZE_TYPE__)'', decl_symbol = ''__bound_malloc''\<rparr>,
        \<lparr>decl_type = ''void*'', decl_name = ''malloc'',
         decl_params = ''(__SIZE_TYPE__)'', decl_symbol = ''__bound_malloc''\<rparr>]
   \<and> declarations_of ''malloc'' freebsd_x86_64 bounds_off =
       [\<lparr>decl_type = ''void*'', decl_name = ''__builtin_malloc'',
         decl_params = ''(__SIZE_TYPE__)'', decl_symbol = ''malloc''\<rparr>]"
proof -
  have t: "TCC_TARGET_X86_64 freebsd_x86_64" "\<not> TCC_TARGET_PE freebsd_x86_64"
    and o: "\<not> TCC_PP bounds_on" "\<not> TCC_PP bounds_off"
    by (simp_all add: targets bounds_on_def bounds_off_def)
  from malloc_declarations_x86_64 [OF t o(1)] malloc_declarations_x86_64 [OF t o(2)] t o
  show ?thesis
    by (simp add: targets bounds_on_def bounds_off_def RENAME_def)
qed

subsection \<open>C6: the variadic-argument access of 64-bit Windows\<close>

text \<open>
  C6, as stated, fails: on the x86\_64 Windows/PE target, for an argument type of size 0
  (an empty struct or an array of no elements, which the compiler accepts as an
  extension), the macro of line 194 denotes the object in the slot itself, at the old
  \<^verbatim>\<open>ap\<close>, and not the object whose address the slot holds, although 0 is not a power
  of two: \<^verbatim>\<open>sizeof(t)&(sizeof(t)-1)\<close> is 0 for a size of 0 as it is for a power of two.
\<close>

theorem win64_va_arg_direct_at_size_zero:
  "definitions_of ''__builtin_va_arg'' (tccdefs win64) =
      [Function_like [''ap'', ''t'']
        ''((sizeof(t)>8||(sizeof(t)&(sizeof(t)-1)))?**(t**)((ap+=8)-8):*(t*)((ap+=8)-8))'']
   \<and> \<not> is_power_of_two (unat (0 :: 64 word))
   \<and> win64_va_arg ((+) 4096) 1000 0 = (1000, 1008)
   \<and> (4096 :: 64 word) + 1000 = 5096"
proof -
  have t: "TCC_TARGET_X86_64 win64" "TCC_TARGET_PE win64"
    by (simp_all add: targets)
  have "\<not> is_power_of_two (unat (0 :: 64 word))"
    by (simp add: is_power_of_two_def)
  moreover have "win64_va_arg ((+) 4096) 1000 0 = (1000, 1008)"
    by (simp add: win64_va_arg_def win64_by_reference_def)
  ultimately show ?thesis
    using win64_va_list_text(2) [OF t] by simp
qed

text \<open>
  C6, amended: on the x86\_64 Windows/PE target \<^verbatim>\<open>__builtin_va_list\<close> is a \<^verbatim>\<open>char*\<close> and
  \<^verbatim>\<open>__builtin_va_arg\<close> is the macro of line 194. For an argument type of a size \<open>sz\<close> of
  at least 1 the macro leaves \<^verbatim>\<open>ap\<close> advanced by exactly 8, and it denotes the object
  whose address is stored in the slot at the old \<^verbatim>\<open>ap\<close> (one more indirection)
  precisely when \<open>sz\<close> exceeds 8 or is not a power of two, and the object in the slot
  itself otherwise.
\<close>

theorem win64_va_arg_by_size:
  assumes "TCC_TARGET_X86_64 c" and "TCC_TARGET_PE c" and "sz \<noteq> 0"
  shows "''typedef char*__builtin_va_list;'' \<in> set (tccdefs c)
   \<and> definitions_of ''__builtin_va_arg'' (tccdefs c) =
      [Function_like [''ap'', ''t'']
        ''((sizeof(t)>8||(sizeof(t)&(sizeof(t)-1)))?**(t**)((ap+=8)-8):*(t*)((ap+=8)-8))'']
   \<and> snd (win64_va_arg load ap sz) = ap + 8
   \<and> fst (win64_va_arg load ap sz) =
       (if 8 < unat sz \<or> \<not> (\<exists>k. unat sz = 2 ^ k) then load ap else ap)"
  using win64_va_list_text [OF assms(1,2)] win64_by_reference_iff [OF assms(3)]
  by (simp add: win64_va_arg_result)

theorem win64_va_arg_by_size_witness:
  "TCC_TARGET_X86_64 win64 \<and> TCC_TARGET_PE win64
   \<and> (24 :: 64 word) \<noteq> 0 \<and> (4 :: 64 word) \<noteq> 0 \<and> (3 :: 64 word) \<noteq> 0
   \<and> win64_va_arg (\<lambda>a. a + 4096) 1000 24 = (5096, 1008)
   \<and> win64_va_arg (\<lambda>a. a + 4096) 1000 4 = (1000, 1008)
   \<and> win64_va_arg (\<lambda>a. a + 4096) 1000 3 = (5096, 1008)"
proof -
  have t: "TCC_TARGET_X86_64 win64" "TCC_TARGET_PE win64"
    by (simp_all add: targets)
  have s: "(24 :: 64 word) \<noteq> 0" "(4 :: 64 word) \<noteq> 0" "(3 :: 64 word) \<noteq> 0"
    by simp_all
  have "(4 :: nat) = 2 ^ 2" by simp
  then have p4: "\<exists>k. unat (4 :: 64 word) = 2 ^ k" by (intro exI [of _ 2]) simp
  have "\<not> (\<exists>k. (3 :: nat) = 2 ^ k)"
    using small_powers_of_two [of 3] by simp
  then have p3: "\<not> (\<exists>k. unat (3 :: 64 word) = 2 ^ k)" by simp
  note w24 = win64_va_arg_by_size [OF t s(1), of "\<lambda>a. a + 4096" 1000,
      THEN conjunct2, THEN conjunct2]
  note w4 = win64_va_arg_by_size [OF t s(2), of "\<lambda>a. a + 4096" 1000,
      THEN conjunct2, THEN conjunct2]
  note w3 = win64_va_arg_by_size [OF t s(3), of "\<lambda>a. a + 4096" 1000,
      THEN conjunct2, THEN conjunct2]
  from w24 have a: "win64_va_arg (\<lambda>a. a + 4096) 1000 24 = (5096, 1008)"
    by (simp add: prod_eq_iff)
  from w4 p4 have b: "win64_va_arg (\<lambda>a. a + 4096) 1000 4 = (1000, 1008)"
    by (simp add: prod_eq_iff)
  from w3 p3 have c: "win64_va_arg (\<lambda>a. a + 4096) 1000 3 = (5096, 1008)"
    by (simp add: prod_eq_iff)
  from t s a b c show ?thesis by (intro conjI)
qed

subsection \<open>C7: the macros of strict C11\<close>

text \<open>
  C7: when the test \<^verbatim>\<open>__STDC_VERSION__==201112L\<close> of line 71 holds for the macros set
  before the header, the macros a translation unit sees after it define
  \<^verbatim>\<open>__STDC_NO_ATOMICS__\<close>, \<^verbatim>\<open>__STDC_NO_COMPLEX__\<close> and \<^verbatim>\<open>__STDC_NO_THREADS__\<close> as 1; on
  every target but Windows/PE they also define \<^verbatim>\<open>__STDC_UTF_16__\<close> and
  \<^verbatim>\<open>__STDC_UTF_32__\<close> as 1, and on Windows/PE the emitted text has no definition of these
  two, which stay as they were before the header.
\<close>

theorem strict_c11_macros:
  assumes "operand_value env ''__STDC_VERSION__'' = Some 201112"
  shows "predefs c env ''__STDC_NO_ATOMICS__'' = Some (Object_like ''1'')
   \<and> predefs c env ''__STDC_NO_COMPLEX__'' = Some (Object_like ''1'')
   \<and> predefs c env ''__STDC_NO_THREADS__'' = Some (Object_like ''1'')
   \<and> (if TCC_TARGET_PE c then
         definitions_of ''__STDC_UTF_16__'' (tccdefs c) = []
         \<and> definitions_of ''__STDC_UTF_32__'' (tccdefs c) = []
         \<and> predefs c env ''__STDC_UTF_16__'' = env ''__STDC_UTF_16__''
         \<and> predefs c env ''__STDC_UTF_32__'' = env ''__STDC_UTF_32__''
       else
         predefs c env ''__STDC_UTF_16__'' = Some (Object_like ''1'')
         \<and> predefs c env ''__STDC_UTF_32__'' = Some (Object_like ''1''))"
  by (simp add: predefs_c11 [OF assms] utf_definitions)

theorem strict_c11_macros_witness:
  "operand_value c11 ''__STDC_VERSION__'' = Some 201112
   \<and> predefs linux_x86_64 c11 ''__STDC_NO_ATOMICS__'' = Some (Object_like ''1'')
   \<and> predefs linux_x86_64 c11 ''__STDC_NO_COMPLEX__'' = Some (Object_like ''1'')
   \<and> predefs linux_x86_64 c11 ''__STDC_NO_THREADS__'' = Some (Object_like ''1'')
   \<and> predefs linux_x86_64 c11 ''__STDC_UTF_16__'' = Some (Object_like ''1'')
   \<and> predefs linux_x86_64 c11 ''__STDC_UTF_32__'' = Some (Object_like ''1'')
   \<and> predefs win64 c11 ''__STDC_NO_ATOMICS__'' = Some (Object_like ''1'')
   \<and> predefs win64 c11 ''__STDC_UTF_16__'' = None
   \<and> predefs win64 c11 ''__STDC_UTF_32__'' = None"
  using strict_c11_macros [OF c11_version, of linux_x86_64]
    strict_c11_macros [OF c11_version, of win64] c11_version
  by (simp add: targets c11_def)

subsection \<open>C8: the compiler version the system headers are shown\<close>

text \<open>
  C8, as stated, fails: for Linux on x86\_64 the emitted text defines none of
  \<^verbatim>\<open>__GNUC__\<close>, \<^verbatim>\<open>__GNUC_MINOR__\<close> and \<^verbatim>\<open>__GNUC_PATCHLEVEL__\<close> (the branch of lines 135
  to 137 is empty), and for OpenBSD it defines \<^verbatim>\<open>__GNUC__\<close> alone.
\<close>

theorem no_gnuc_version_on_linux:
  "definitions_of ''__GNUC__'' (tccdefs linux_x86_64) = []
   \<and> definitions_of ''__GNUC_MINOR__'' (tccdefs linux_x86_64) = []
   \<and> definitions_of ''__GNUC_PATCHLEVEL__'' (tccdefs linux_x86_64) = []
   \<and> definitions_of ''__GNUC__'' (tccdefs openbsd_i386) = [Object_like ''4'']
   \<and> definitions_of ''__GNUC_MINOR__'' (tccdefs openbsd_i386) = []"
  by (simp add: gnuc_definitions gnuc_minor_definitions gnuc_patchlevel_definitions targets)

text \<open>
  C8, amended: the version macros depend on the operating system alone, the first test
  that holds deciding. Windows/PE: none. FreeBSD: \<^verbatim>\<open>__GNUC__\<close> 9, \<^verbatim>\<open>__GNUC_MINOR__\<close> 3,
  \<^verbatim>\<open>__GNUC_PATCHLEVEL__\<close> 0. The FreeBSD kernel: none. NetBSD: 4, 1 and 0. OpenBSD and
  Mach-O: \<^verbatim>\<open>__GNUC__\<close> 4 and neither of the other two. Android, Linux and everything
  else: none.
\<close>

theorem gnuc_version_by_os:
  "(definitions_of ''__GNUC__'' (tccdefs c),
    definitions_of ''__GNUC_MINOR__'' (tccdefs c),
    definitions_of ''__GNUC_PATCHLEVEL__'' (tccdefs c)) =
     (if TCC_TARGET_PE c then ([], [], [])
      else if TARGETOS_FreeBSD c then
        ([Object_like ''9''], [Object_like ''3''], [Object_like ''0''])
      else if TARGETOS_FreeBSD_kernel c then ([], [], [])
      else if TARGETOS_NetBSD c then
        ([Object_like ''4''], [Object_like ''1''], [Object_like ''0''])
      else if TARGETOS_OpenBSD c then ([Object_like ''4''], [], [])
      else if TCC_TARGET_MACHO c then ([Object_like ''4''], [], [])
      else ([], [], []))"
  by (simp add: gnuc_definitions gnuc_minor_definitions gnuc_patchlevel_definitions)

theorem gnuc_version_by_os_witness:
  "(definitions_of ''__GNUC__'' (tccdefs freebsd_x86_64),
    definitions_of ''__GNUC_MINOR__'' (tccdefs freebsd_x86_64),
    definitions_of ''__GNUC_PATCHLEVEL__'' (tccdefs freebsd_x86_64)) =
     ([Object_like ''9''], [Object_like ''3''], [Object_like ''0''])
   \<and> (definitions_of ''__GNUC__'' (tccdefs netbsd_x86_64),
    definitions_of ''__GNUC_MINOR__'' (tccdefs netbsd_x86_64),
    definitions_of ''__GNUC_PATCHLEVEL__'' (tccdefs netbsd_x86_64)) =
     ([Object_like ''4''], [Object_like ''1''], [Object_like ''0''])"
  using gnuc_version_by_os [of freebsd_x86_64] gnuc_version_by_os [of netbsd_x86_64]
  by (simp add: targets)

subsection \<open>C9: no declarations on Windows/PE without bounds checking\<close>

text \<open>
  C9: on a Windows/PE target with bounds checking disabled the table of lines 256 to 298
  declares nothing. When the table is read \<^verbatim>\<open>__BOTH\<close> is defined as \<^verbatim>\<open>__BOUND\<close>, and
  \<^verbatim>\<open>__BOUND\<close> and \<^verbatim>\<open>__BUILTIN\<close> are function-like macros with an empty replacement.
\<close>

theorem no_declarations_on_pe:
  assumes "TCC_TARGET_PE c" and "env ''__BOUNDS_CHECKING_ON'' = None"
  shows "builtin_declarations c (options_of env) = []
   \<and> (if env ''__TCC_PP__'' = None then
        table_macros c env ''__BOTH'' = Some (Object_like ''__BOUND'')
        \<and> table_macros c env ''__BOUND'' =
            Some (Function_like [''ret'', ''name'', ''params''] [])
        \<and> table_macros c env ''__BUILTIN'' =
            Some (Function_like [''ret'', ''name'', ''params''] [])
      else True)"
proof -
  from assms(2) have "\<not> BOUNDS_CHECKING_ON (options_of env)"
    by (simp add: options_of_def)
  with assms(1) have "builtin_declarations c (options_of env) = []"
    by (rule no_declarations)
  moreover from assms(2) have "\<not> BOUNDS_CHECKING_ON (options_of env)"
    by (simp add: options_of_def)
  ultimately show ?thesis
    using assms(1) by (simp add: helper_macros_in_force)
qed

theorem no_declarations_on_pe_witness:
  "TCC_TARGET_PE win64 \<and> Map.empty ''__BOUNDS_CHECKING_ON'' = (None :: macro option)
   \<and> builtin_declarations win64 (options_of Map.empty) = []
   \<and> table_macros win64 Map.empty ''__BOTH'' = Some (Object_like ''__BOUND'')
   \<and> table_macros win64 Map.empty ''__BOUND'' =
       Some (Function_like [''ret'', ''name'', ''params''] [])
   \<and> table_macros win64 Map.empty ''__BUILTIN'' =
       Some (Function_like [''ret'', ''name'', ''params''] [])"
proof -
  have t: "TCC_TARGET_PE win64" and e: "Map.empty ''__BOUNDS_CHECKING_ON'' = (None :: macro option)"
    by (simp_all add: targets)
  from no_declarations_on_pe [OF t e] t show ?thesis by simp
qed

subsection \<open>C10: the helper macros do not outlive the header\<close>

text \<open>
  C10: for every target the emitted text is the lines before the table, the table of
  builtin declarations, the \<^verbatim>\<open>#undef\<close> of \<^verbatim>\<open>__BUILTINBC\<close>, \<^verbatim>\<open>__BUILTIN\<close>, \<^verbatim>\<open>__BOUND\<close>, \<^verbatim>\<open>__BOTH\<close>,
  \<^verbatim>\<open>__MAYBE_REDIR\<close> and \<^verbatim>\<open>__RENAME\<close>, and the closing \<^verbatim>\<open>#endif\<close>, in this order and
  with nothing in between or after. After the header none of the six names is defined; with
  \<^verbatim>\<open>__TCC_PP__\<close> defined the whole part is skipped, the header defines none of them
  and each is what it was before the header.
\<close>

theorem helper_macros_removed:
  "tccdefs c = before_table c @ builtin_table c
       @ [''#undef __BUILTINBC'', ''#undef __BUILTIN'', ''#undef __BOUND'', ''#undef __BOTH'',
          ''#undef __MAYBE_REDIR'', ''#undef __RENAME'', ''#endif'']
   \<and> predefs c env ''__BUILTINBC'' =
       (if env ''__TCC_PP__'' = None then None else env ''__BUILTINBC'')
   \<and> predefs c env ''__BUILTIN'' =
       (if env ''__TCC_PP__'' = None then None else env ''__BUILTIN'')
   \<and> predefs c env ''__BOUND'' =
       (if env ''__TCC_PP__'' = None then None else env ''__BOUND'')
   \<and> predefs c env ''__BOTH'' =
       (if env ''__TCC_PP__'' = None then None else env ''__BOTH'')
   \<and> predefs c env ''__MAYBE_REDIR'' =
       (if env ''__TCC_PP__'' = None then None else env ''__MAYBE_REDIR'')
   \<and> predefs c env ''__RENAME'' =
       (if env ''__TCC_PP__'' = None then None else env ''__RENAME'')"
proof -
  have "tccdefs c = before_table c @ builtin_table c
       @ [''#undef __BUILTINBC'', ''#undef __BUILTIN'', ''#undef __BOUND'', ''#undef __BOTH'',
          ''#undef __MAYBE_REDIR'', ''#undef __RENAME'', ''#endif'']"
    unfolding tccdefs_def before_table_def helper_cleanup_def tcc_pp_end_def
    by (simp only: append_assoc append.simps)
  moreover have "predefs c env ''__BUILTINBC'' =
       (if env ''__TCC_PP__'' = None then None else env ''__BUILTINBC'')"
    by (rule predefs_helper) simp
  moreover have "predefs c env ''__BUILTIN'' =
       (if env ''__TCC_PP__'' = None then None else env ''__BUILTIN'')"
    by (rule predefs_helper) simp
  moreover have "predefs c env ''__BOUND'' =
       (if env ''__TCC_PP__'' = None then None else env ''__BOUND'')"
    by (rule predefs_helper) simp
  moreover have "predefs c env ''__BOTH'' =
       (if env ''__TCC_PP__'' = None then None else env ''__BOTH'')"
    by (rule predefs_helper) simp
  moreover have "predefs c env ''__MAYBE_REDIR'' =
       (if env ''__TCC_PP__'' = None then None else env ''__MAYBE_REDIR'')"
    by (rule predefs_helper) simp
  moreover have "predefs c env ''__RENAME'' =
       (if env ''__TCC_PP__'' = None then None else env ''__RENAME'')"
    by (rule predefs_helper) simp
  ultimately show ?thesis by (intro conjI)
qed

theorem helper_macros_removed_witness:
  "predefs linux_x86_64 Map.empty ''__BUILTINBC'' = None
   \<and> predefs linux_x86_64 Map.empty ''__BUILTIN'' = None
   \<and> predefs linux_x86_64 Map.empty ''__BOUND'' = None
   \<and> predefs linux_x86_64 Map.empty ''__BOTH'' = None
   \<and> predefs linux_x86_64 Map.empty ''__MAYBE_REDIR'' = None
   \<and> predefs linux_x86_64 Map.empty ''__RENAME'' = None"
  using helper_macros_removed [of linux_x86_64 Map.empty, THEN conjunct2] by simp

end
